theory Spec2Isabelle
  imports Complex_Main "HOL-Library.Multiset" "HOL-Library.Sublist"
begin

section \<open>Data model (src/types/index.ts)\<close>

text \<open>
  JavaScript numbers are modelled by \<^typ>\<open>real\<close>: the properties below are about
  thresholds, order and structure. The one place where the rounding of an arithmetic
  result decides a count, the product in the validation split, is modelled with
  binary64 rounding (section Numbers). A value that may be
  \<^verbatim>\<open>undefined\<close> at run time (an array read past the end, a property of an
  \<^verbatim>\<open>any\<close>-typed object) is a \<^typ>\<open>real option\<close>, with \<^term>\<open>None\<close> for
  \<^verbatim>\<open>undefined\<close>.
\<close>

record TrackFeatures =
  danceability :: real
  energy :: real
  key :: real
  loudness :: real
  mode :: real
  speechiness :: real
  acousticness :: real
  instrumentalness :: real
  liveness :: real
  valence :: real
  tempo :: real
  duration_ms :: real
  time_signature :: real
  hour_of_day :: real
  day_of_week :: real
  month :: real
  is_weekend :: real
  skip_rate :: real
  repeat_count :: real
  playlist_position :: real

text \<open>
  \<^verbatim>\<open>ModelPredictions\<close>. The nested objects are records of their own; their fields
  carry a prefix (\<open>mood_\<close>, \<open>next_\<close>, \<open>conf_\<close>) because the source reuses the names
  \<^verbatim>\<open>valence\<close>, \<^verbatim>\<open>energy\<close>, \<^verbatim>\<open>danceability\<close> and \<^verbatim>\<open>mood\<close>.
  The predicted components are read from a typed array by index, so they are optional.
\<close>

record MoodPrediction =
  mood_valence :: "real option"
  mood_energy :: "real option"
  mood_arousal :: "real option"

record NextTrackPrediction =
  next_valence :: "real option"
  next_energy :: "real option"
  next_danceability :: "real option"

record ConfidenceScores =
  conf_mood :: real
  conf_next_track :: real

record ModelPredictions =
  mood_prediction :: MoodPrediction
  pattern_embedding :: "real list"
  next_track_prediction :: NextTrackPrediction
  confidence_scores :: ConfidenceScores

record AnalysisMetadata =
  tracks_analyzed :: nat
  analysis_timestamp :: int
  model_version :: string

record AnalysisOutput =
  result_predictions :: ModelPredictions
  result_metadata :: AnalysisMetadata

record AnalyzeOptions =
  include_insights :: "bool option"
  include_embeddings :: "bool option"
  options_model_version :: "string option"

text \<open>The error classes of the source that the modelled functions throw.\<close>

datatype error =
    ModelError string
  | ValidationError string
  | TensorError string

section \<open>Tensors\<close>

text \<open>
  A rank-2 tensor is modelled by the list of its rows. Every caller below builds it
  from rows of one fixed width. \<^verbatim>\<open>tf.tensor2d(values)\<close> without a shape argument
  throws on the empty array (no second dimension can be inferred from \<^verbatim>\<open>[]\<close>).
  \<^verbatim>\<open>tensor.data()\<close> is the row-major flattening. \<^verbatim>\<open>t.slice([b, 0], [s, -1])\<close> keeps
  \<open>s\<close> rows from row \<open>b\<close> on, all columns; a size of \<open>-1\<close> means "to the end", and the
  call throws when \<open>b\<close> is negative, when \<open>s\<close> is below \<open>-1\<close>, or when \<open>b + s\<close>
  exceeds the number of rows.
\<close>

type_synonym 'a tensor = "'a list list"

definition tensor2d :: "'a list list \<Rightarrow> error + 'a tensor" where
  "tensor2d vals =
     (if vals = []
      then Inl (TensorError ''tensor2d() requires shape to be provided when `values` are a flat/TypedArray'')
      else Inr vals)"

definition data :: "'a tensor \<Rightarrow> 'a list" where
  "data t = concat t"

definition slice_rows :: "'a tensor \<Rightarrow> int \<Rightarrow> int \<Rightarrow> error + 'a tensor" where
  "slice_rows t b s =
     (if b < 0 then Inl (TensorError ''slice() does not support negative begin indexing.'')
      else if s < - 1 then Inl (TensorError ''Negative size values should be exactly -1'')
      else if s = - 1 then
        (if b > int (length t) then Inl (TensorError ''slice would overflow input.shape'')
         else Inr (drop (nat b) t))
      else if b + s > int (length t) then Inl (TensorError ''slice would overflow input.shape'')
      else Inr (take (nat s) (drop (nat b) t)))"

text \<open>\<^verbatim>\<open>arr[i]\<close> on a JavaScript array: \<^verbatim>\<open>undefined\<close> past the end.\<close>

definition at_index :: "'a list \<Rightarrow> nat \<Rightarrow> 'a option" where
  "at_index xs i = (if i < length xs then Some (xs ! i) else None)"

section \<open>Numbers\<close>

text \<open>
  A JavaScript Number is a binary64 value. \<open>binary64\<close> rounds a real to the nearest
  such value, ties to the even significand: the significand has 53 bits and the
  exponent of the leading bit is at least \<open>-1022\<close> (below that the spacing stays
  \<open>2^-1074\<close>). A result of magnitude \<open>2^1024\<close> or more is \<^verbatim>\<open>Infinity\<close> in
  JavaScript, which a real cannot hold; the products taken here stay far below.
  A decimal literal of the source denotes the Number nearest to it, and sums and
  differences of integers below \<open>2^53\<close> are exact.
\<close>

definition round_half_even :: "real \<Rightarrow> int" where
  "round_half_even x =
     (let n = \<lfloor>x\<rfloor>; r = x - of_int n
      in if r < 1 / 2 then n else if r > 1 / 2 then n + 1 else if even n then n else n + 1)"

definition binary_exponent :: "real \<Rightarrow> int" where
  "binary_exponent x = max \<lfloor>log 2 \<bar>x\<bar>\<rfloor> (- 1022)"

definition ulp :: "real \<Rightarrow> real" where
  "ulp x = 2 powr of_int (binary_exponent x - 52)"

definition binary64 :: "real \<Rightarrow> real" where
  "binary64 x = (if x = 0 then 0 else of_int (round_half_even (x / ulp x)) * ulp x)"

definition is_number :: "real \<Rightarrow> bool" where
  "is_number x \<longleftrightarrow> binary64 x = x \<and> \<bar>x\<bar> < 2 ^ 1024"

text \<open>
  \<^verbatim>\<open>x * y\<close> on two Numbers is the rounded exact product. A real that is no Number
  is no JavaScript value; for such an argument the exact product is kept.
\<close>

definition number_times :: "real \<Rightarrow> real \<Rightarrow> real" where
  "number_times x y = (if is_number x \<and> is_number y then binary64 (x * y) else x * y)"

section \<open>The analysis endpoint (VibeChainAPI.performAnalysis)\<close>

text \<open>
  The model handle is \<^verbatim>\<open>SimpleSpotifyModel | null\<close>; the class itself and
  \<^verbatim>\<open>DataProcessor\<close> live in other modules, so the model's
  \<^verbatim>\<open>predict\<close> and the processor's \<^verbatim>\<open>trackFeaturesToVector\<close> are parameters.
  \<^verbatim>\<open>new Date()\<close> is the parameter \<open>now\<close>.
\<close>

type_synonym SimpleSpotifyModel = "real tensor \<Rightarrow> error + real tensor"

definition performAnalysis ::
  "SimpleSpotifyModel option \<Rightarrow> (TrackFeatures \<Rightarrow> real list) \<Rightarrow> int \<Rightarrow>
   TrackFeatures list \<Rightarrow> AnalyzeOptions option \<Rightarrow> error + AnalysisOutput" where
  "performAnalysis model dataProcessor_trackFeaturesToVector now tracks options =
     (case model of
        None \<Rightarrow> Inl (ModelError ''No model loaded'')
      | Some predict \<Rightarrow>
          if length tracks = 0 then Inl (ValidationError ''No tracks provided for analysis'')
          else
            (let featureVectors = map dataProcessor_trackFeaturesToVector tracks in
             case tensor2d featureVectors of
               Inl e \<Rightarrow> Inl e
             | Inr inputTensor \<Rightarrow>
                 (case predict inputTensor of
                    Inl e \<Rightarrow> Inl e
                  | Inr predictionTensor \<Rightarrow>
                      (let predictionValues = data predictionTensor in
                       Inr \<lparr> result_predictions =
                               \<lparr> mood_prediction =
                                   \<lparr> mood_valence = at_index predictionValues 0,
                                     mood_energy = at_index predictionValues 1,
                                     mood_arousal = at_index predictionValues 2 \<rparr>,
                                 pattern_embedding = take 10 predictionValues,
                                 next_track_prediction =
                                   \<lparr> next_valence = at_index predictionValues 0,
                                     next_energy = at_index predictionValues 1,
                                     next_danceability = at_index predictionValues 2 \<rparr>,
                                 confidence_scores =
                                   \<lparr> conf_mood = 0.85, conf_next_track = 0.80 \<rparr> \<rparr>,
                             result_metadata =
                               \<lparr> tracks_analyzed = length tracks,
                                 analysis_timestamp = now,
                                 model_version = ''1.0.0'' \<rparr> \<rparr>))))"

text \<open>Example data: a track, a vectoriser and a model with three outputs per row.\<close>

definition exTrack :: "real \<Rightarrow> real \<Rightarrow> real \<Rightarrow> TrackFeatures" where
  "exTrack v e s =
     \<lparr> danceability = 0.5, energy = e, key = 0, loudness = 0.5, mode = 1,
       speechiness = 0.1, acousticness = 0.2, instrumentalness = 0.1, liveness = 0.1,
       valence = v, tempo = 0.5, duration_ms = 0.5, time_signature = 0.5,
       hour_of_day = 0.5, day_of_week = 0.5, month = 0.5, is_weekend = 0,
       skip_rate = s, repeat_count = 0.1, playlist_position = 0.5 \<rparr>"

definition exVectorizer :: "TrackFeatures \<Rightarrow> real list" where
  "exVectorizer t = [danceability t, energy t, valence t]"

definition exModel :: SimpleSpotifyModel where
  "exModel t = Inr (map (\<lambda>row. [row ! 2, row ! 1, row ! 0]) t)"

definition exOutput :: AnalysisOutput where
  "exOutput =
     \<lparr> result_predictions =
         \<lparr> mood_prediction =
             \<lparr> mood_valence = Some 0.9, mood_energy = Some 0.85, mood_arousal = Some 0.5 \<rparr>,
           pattern_embedding = [0.9, 0.85, 0.5],
           next_track_prediction =
             \<lparr> next_valence = Some 0.9, next_energy = Some 0.85,
               next_danceability = Some 0.5 \<rparr>,
           confidence_scores = \<lparr> conf_mood = 0.85, conf_next_track = 0.80 \<rparr> \<rparr>,
       result_metadata =
         \<lparr> tracks_analyzed = 1, analysis_timestamp = 0, model_version = ''1.0.0'' \<rparr> \<rparr>"

definition exOutput2 :: AnalysisOutput where
  "exOutput2 =
     \<lparr> result_predictions =
         \<lparr> mood_prediction =
             \<lparr> mood_valence = Some 0.9, mood_energy = Some 0.85, mood_arousal = Some 0.5 \<rparr>,
           pattern_embedding = [0.9, 0.85, 0.5, 0.1, 0.2, 0.5],
           next_track_prediction =
             \<lparr> next_valence = Some 0.9, next_energy = Some 0.85,
               next_danceability = Some 0.5 \<rparr>,
           confidence_scores = \<lparr> conf_mood = 0.85, conf_next_track = 0.80 \<rparr> \<rparr>,
       result_metadata =
         \<lparr> tracks_analyzed = 2, analysis_timestamp = 7, model_version = ''1.0.0'' \<rparr> \<rparr>"

section \<open>The training pipeline (CSVTrainer)\<close>

text \<open>
  The feature payload of a \<^verbatim>\<open>Track\<close> reaches the trainer typed \<^verbatim>\<open>any\<close>
  (\<^verbatim>\<open>TrackFeatures | SpotifyAudioFeatures\<close>): an object from property names to
  numbers, any property possibly absent.
\<close>

type_synonym FeatureObject = "string \<Rightarrow> real option"

record Track =
  track_id :: string
  track_name :: string
  artist :: string
  album :: string
  played_at :: int
  track_duration_ms :: real
  popularity :: real
  track_features :: "FeatureObject option"

record ListeningSession =
  session_tracks :: "Track list"
  start_time :: int
  end_time :: int
  session_id :: string

record TrainingConfig =
  batchSize :: nat
  epochs :: nat
  learningRate :: real
  validationSplit :: real
  sampleSize :: nat

text \<open>
  \<^verbatim>\<open>CSVDataLoader\<close> is the external data source: the two methods the pipeline
  calls are the fields of a record.
\<close>

record CSVDataLoader =
  getTracks :: "nat \<Rightarrow> Track list"
  createListeningSessions :: "Track list \<Rightarrow> nat \<Rightarrow> ListeningSession list"

record TrainingData =
  train_inputs :: "real tensor"
  train_labels :: "real option tensor"
  validation_inputs :: "real tensor"
  validation_labels :: "real option tensor"

text \<open>
  \<^verbatim>\<open>v || 0\<close> on a number or \<^verbatim>\<open>undefined\<close>: the falsy values \<^verbatim>\<open>undefined\<close>,
  \<^verbatim>\<open>NaN\<close> and \<^verbatim>\<open>0\<close> give \<open>0\<close>. \<^verbatim>\<open>v / d || 0\<close> divides first;
  \<^verbatim>\<open>undefined / d\<close> is \<^verbatim>\<open>NaN\<close>.
\<close>

definition or_zero :: "real option \<Rightarrow> real" where
  "or_zero v = (case v of None \<Rightarrow> 0 | Some x \<Rightarrow> if x = 0 then 0 else x)"

definition div_or_zero :: "real option \<Rightarrow> real \<Rightarrow> real" where
  "div_or_zero v d = or_zero (map_option (\<lambda>x. x / d) v)"

definition trackFeaturesToVector :: "FeatureObject \<Rightarrow> real list" where
  "trackFeaturesToVector features =
     [ or_zero (features ''danceability''),
       or_zero (features ''energy''),
       or_zero (features ''key''),
       or_zero (features ''loudness''),
       or_zero (features ''mode''),
       or_zero (features ''speechiness''),
       or_zero (features ''acousticness''),
       or_zero (features ''instrumentalness''),
       or_zero (features ''liveness''),
       or_zero (features ''valence''),
       div_or_zero (features ''tempo'') 200,
       div_or_zero (features ''duration_ms'') 300000,
       div_or_zero (features ''time_signature'') 7,
       or_zero (features ''hour_of_day''),
       div_or_zero (features ''day_of_week'') 7,
       div_or_zero (features ''month'') 12,
       or_zero (features ''is_weekend''),
       or_zero (features ''skip_rate''),
       div_or_zero (features ''repeat_count'') 5,
       or_zero (features ''playlist_position'') ]"

text \<open>
  The inner loop of \<^verbatim>\<open>prepareTrainingData\<close> over one session:
  \<^verbatim>\<open>for (let i = 0; i < session.tracks.length - 1; i++)\<close>, pushing onto
  \<^verbatim>\<open>allInputs\<close> and \<^verbatim>\<open>allLabels\<close>.
\<close>

function sessionLoop ::
  "Track list \<Rightarrow> nat \<Rightarrow> real list list \<times> real option list list \<Rightarrow>
   real list list \<times> real option list list" where
  "sessionLoop ts i (allInputs, allLabels) =
     (if int i < int (length ts) - 1 then
        (let currentTrack = ts ! i; nextTrack = ts ! (i + 1) in
         case track_features currentTrack of
           None \<Rightarrow> sessionLoop ts (i + 1) (allInputs, allLabels)
         | Some currentFeatures \<Rightarrow>
             (case track_features nextTrack of
                None \<Rightarrow> sessionLoop ts (i + 1) (allInputs, allLabels)
              | Some nextFeatures \<Rightarrow>
                  (let input = trackFeaturesToVector currentFeatures;
                       label = [nextFeatures ''valence'', nextFeatures ''energy'',
                                nextFeatures ''danceability'']
                   in sessionLoop ts (i + 1) (allInputs @ [input], allLabels @ [label]))))
      else (allInputs, allLabels))"
  by pat_completeness auto
termination
  by (relation "measure (\<lambda>(ts, i, acc). length ts - i)") auto

text \<open>The outer loop \<^verbatim>\<open>for (const session of sessions)\<close>.\<close>

definition extractExamples ::
  "ListeningSession list \<Rightarrow> real list list \<times> real option list list" where
  "extractExamples sessions =
     fold (\<lambda>session acc. sessionLoop (session_tracks session) 0 acc) sessions ([], [])"

definition prepareTrainingData :: "TrainingConfig \<Rightarrow> CSVDataLoader \<Rightarrow> error + TrainingData" where
  "prepareTrainingData config csvLoader =
     (let tracks = getTracks csvLoader (sampleSize config);
          sessions = createListeningSessions csvLoader tracks 10;
          examples = extractExamples sessions;
          allInputs = fst examples;
          allLabels = snd examples
      in
      case tensor2d allInputs of
        Inl e \<Rightarrow> Inl e
      | Inr inputsTensor \<Rightarrow>
      (case tensor2d allLabels of
        Inl e \<Rightarrow> Inl e
      | Inr labelsTensor \<Rightarrow>
      (let numValidation =
             \<lfloor>number_times (real (length allInputs)) (validationSplit config)\<rfloor>;
           numTrain = int (length allInputs) - numValidation
       in
       case slice_rows inputsTensor 0 numTrain of
         Inl e \<Rightarrow> Inl e
       | Inr trainInputs \<Rightarrow>
       (case slice_rows labelsTensor 0 numTrain of
         Inl e \<Rightarrow> Inl e
       | Inr trainLabels \<Rightarrow>
       (case slice_rows inputsTensor numTrain numValidation of
         Inl e \<Rightarrow> Inl e
       | Inr validationInputs \<Rightarrow>
       (case slice_rows labelsTensor numTrain numValidation of
         Inl e \<Rightarrow> Inl e
       | Inr validationLabels \<Rightarrow>
           Inr \<lparr> train_inputs = trainInputs, train_labels = trainLabels,
                 validation_inputs = validationInputs,
                 validation_labels = validationLabels \<rparr>))))))"

text \<open>
  The reading of the extraction rule to compare the loop with: the examples of a
  session are taken at the adjacent index pairs \<open>(i, i + 1)\<close>, in order, where both
  tracks carry a feature payload.
\<close>

definition pairAt :: "Track list \<Rightarrow> nat \<Rightarrow> (real list \<times> real option list) list" where
  "pairAt ts i =
     (case (track_features (ts ! i), track_features (ts ! (i + 1))) of
        (Some cur, Some nxt) \<Rightarrow>
          [(trackFeaturesToVector cur, [nxt ''valence'', nxt ''energy'', nxt ''danceability''])]
      | _ \<Rightarrow> [])"

definition adjacentPairs :: "Track list \<Rightarrow> (real list \<times> real option list) list" where
  "adjacentPairs ts = concat (map (pairAt ts) [0..<length ts - 1])"

text \<open>The documented field order with the divisor applied to each field.\<close>

definition fieldOrder :: "(string \<times> real) list" where
  "fieldOrder =
     [ (''danceability'', 1), (''energy'', 1), (''key'', 1), (''loudness'', 1), (''mode'', 1),
       (''speechiness'', 1), (''acousticness'', 1), (''instrumentalness'', 1),
       (''liveness'', 1), (''valence'', 1), (''tempo'', 200), (''duration_ms'', 300000),
       (''time_signature'', 7), (''hour_of_day'', 1), (''day_of_week'', 7), (''month'', 12),
       (''is_weekend'', 1), (''skip_rate'', 1), (''repeat_count'', 5),
       (''playlist_position'', 1) ]"

text \<open>Example data for the pipeline.\<close>

definition exFeatures :: FeatureObject where
  "exFeatures =
     [''danceability'' \<mapsto> 0.7, ''energy'' \<mapsto> 0.6, ''valence'' \<mapsto> 0.5,
      ''tempo'' \<mapsto> 120, ''duration_ms'' \<mapsto> 240000]"

definition mkTrack :: "FeatureObject option \<Rightarrow> Track" where
  "mkTrack f =
     \<lparr> track_id = ''t'', track_name = ''n'', artist = ''a'', album = ''b'', played_at = 0,
       track_duration_ms = 240000, popularity = 50, track_features = f \<rparr>"

definition exLoader :: "Track list \<Rightarrow> CSVDataLoader" where
  "exLoader ts =
     \<lparr> getTracks = (\<lambda>n. take n ts),
       createListeningSessions =
         (\<lambda>tracks k. [\<lparr> session_tracks = tracks, start_time = 0, end_time = 1,
                        session_id = ''s'' \<rparr>]) \<rparr>"

text \<open>
  The default configuration. The literal \<^verbatim>\<open>0.2\<close> denotes the Number
  \<open>3602879701896397 / 2^54\<close>, and \<^verbatim>\<open>0.7\<close> the Number \<open>3152519739159347 / 2^52\<close>.
\<close>

definition exConfig :: TrainingConfig where
  "exConfig =
     \<lparr> batchSize = 32, epochs = 10, learningRate = 0.001,
       validationSplit = 3602879701896397 / 18014398509481984,
       sampleSize = 5000 \<rparr>"



definition exVector :: "real list" where
  "exVector = [0.7, 0.6, 0, 0, 0, 0, 0, 0, 0, 0.5, 0.6, 0.8, 0, 0, 0, 0, 0, 0, 0, 0]"

definition exLabel :: "real option list" where
  "exLabel = [Some 0.5, Some 0.6, Some 0.7]"

definition exTwoTracks :: "Track list" where
  "exTwoTracks = [mkTrack (Some exFeatures), mkTrack (Some exFeatures)]"






definition exSessionB :: "Track list" where
  "exSessionB = [mkTrack None, mkTrack (Some exFeatures), mkTrack None]"

text \<open>
  The number of validation examples \<^verbatim>\<open>Math.floor(N * f)\<close>, with the product of
  the two Numbers as JavaScript takes it.
\<close>

definition validationCount :: "nat \<Rightarrow> real \<Rightarrow> nat" where
  "validationCount n f = nat \<lfloor>number_times (real n) f\<rfloor>"

section \<open>The insight engine\<close>

text \<open>
  Modelled from the spec: the helper \<^verbatim>\<open>mean\<close> that the insight engine imports
  from \<^verbatim>\<open>./helpers\<close>, the arithmetic mean of a batch. On the empty list this is
  \<open>0\<close>; the properties below that depend on a mean are about non-empty batches.
\<close>

definition mean :: "real list \<Rightarrow> real" where
  "mean values = sum_list values / real (length values)"

text \<open>
  Modelled from the spec: the helper \<^verbatim>\<open>standardDeviation\<close> that the insight engine
  imports from \<^verbatim>\<open>./helpers\<close>, the root of the mean squared deviation from the mean.
\<close>

definition standardDeviation :: "real list \<Rightarrow> real" where
  "standardDeviation values = sqrt (mean (map (\<lambda>v. (v - mean values)\<^sup>2) values))"

text \<open>
  \<^verbatim>\<open>a > b\<close> and \<^verbatim>\<open>a < b\<close> where \<open>a\<close> may be \<^verbatim>\<open>undefined\<close> or \<^verbatim>\<open>NaN\<close>: both
  comparisons are then false.
\<close>

definition js_gt :: "real option \<Rightarrow> real \<Rightarrow> bool" where
  "js_gt a b = (case a of None \<Rightarrow> False | Some x \<Rightarrow> x > b)"

definition js_lt :: "real option \<Rightarrow> real \<Rightarrow> bool" where
  "js_lt a b = (case a of None \<Rightarrow> False | Some x \<Rightarrow> x < b)"

text \<open>\<^verbatim>\<open>s.includes(sub)\<close>: \<open>sub\<close> occurs in \<open>s\<close> as a contiguous substring.\<close>

fun str_includes :: "string \<Rightarrow> string \<Rightarrow> bool" where
  "str_includes [] sub = (sub = [])"
| "str_includes (c # cs) sub = (prefix sub (c # cs) \<or> str_includes cs sub)"

text \<open>\<^verbatim>\<open>Math.round\<close>: to the nearest integer, halves towards \<open>+\<infinity>\<close>.\<close>

definition math_round :: "real \<Rightarrow> int" where
  "math_round x = \<lfloor>x + 1 / 2\<rfloor>"

text \<open>The string literals of the source, one constant each.\<close>

definition msgMoodPositive :: string where
  "msgMoodPositive =
     ''Your music taste consistently leans towards positive, uplifting tracks. You seem to use music to maintain or boost your mood.''"

definition msgMoodUpliftingShift :: string where
  "msgMoodUpliftingShift =
     ''While your recent tracks show varied emotions, your listening pattern suggests a preference for uplifting music when making future choices.''"

definition msgMoodMelancholic :: string where
  "msgMoodMelancholic =
     ''You gravitate towards more melancholic or introspective music. This could indicate you use music for emotional processing or prefer deeper, more complex emotions.''"

definition msgMoodContemplativeShift :: string where
  "msgMoodContemplativeShift =
     ''Your model predicts a shift towards more contemplative music choices, possibly indicating a change in mood or preference.''"

definition msgMoodBalanced :: string where
  "msgMoodBalanced =
     ''Your music taste spans a balanced emotional range, suggesting you adapt your listening to different moods and situations.''"

definition msgEnergyHighSteady :: string where
  "msgEnergyHighSteady =
     ''You consistently prefer high-energy, danceable music. Your listening style suggests you use music for motivation and activity.''"

definition msgEnergyHighVaried :: string where
  "msgEnergyHighVaried =
     ''While you enjoy high-energy music, you also appreciate variety in intensity, showing adaptability in your musical preferences.''"

definition msgEnergyCalm :: string where
  "msgEnergyCalm =
     ''You gravitate towards calmer, more relaxed tracks. This suggests you often use music for relaxation, focus, or introspection.''"

definition msgTimeNightOwl :: string where
  "msgTimeNightOwl =
     ''You're a night owl, with most listening happening in the early morning hours.''"

definition msgTimeEarlyBird :: string where
  "msgTimeEarlyBird =
     ''You're an early bird listener, preferring morning music sessions.''"

definition msgTimeAfternoon :: string where
  "msgTimeAfternoon =
     ''Your listening patterns center around afternoon hours, possibly during work or study.''"

definition msgTimeEvening :: string where
  "msgTimeEvening =
     ''You're an evening listener, enjoying music during nighttime hours.''"

definition msgWeekendHeavy :: string where
  "msgWeekendHeavy =
     '' Your listening heavily skews towards weekends, suggesting music is part of your leisure time.''"

definition msgWeekdayHeavy :: string where
  "msgWeekdayHeavy =
     '' You listen more during weekdays, possibly as part of your work or commute routine.''"

definition msgWeekBalanced :: string where
  "msgWeekBalanced =
     '' Your listening is well-distributed across weekdays and weekends.''"

definition msgDiversityHigh :: string where
  "msgDiversityHigh =
     ''Your music taste is highly diverse, spanning different genres, moods, and styles. You're an adventurous listener who enjoys exploring various musical landscapes.''"

definition msgDiversityModerate :: string where
  "msgDiversityModerate =
     ''You have a moderately diverse music taste with some consistency in preferences. You enjoy variety while maintaining certain stylistic preferences.''"

definition msgDiversityLow :: string where
  "msgDiversityLow =
     ''Your music taste shows strong consistency and focus. You have well-defined preferences and tend to stay within your comfort zone.''"

definition msgSkipFrequently :: string where
  "msgSkipFrequently =
     ''You tend to skip tracks frequently, suggesting you're selective about what holds your attention.''"

definition msgRarelySkip :: string where
  "msgRarelySkip =
     ''You rarely skip tracks, indicating strong satisfaction with your music choices or patient listening habits.''"

definition msgReplay :: string where
  "msgReplay =
     ''You frequently replay songs, suggesting you develop strong attachments to particular tracks.''"

definition msgTempoVaried :: string where
  "msgTempoVaried =
     ''Your tempo preferences vary widely, showing adaptability to different rhythmic environments.''"

definition msgAcoustic :: string where
  "msgAcoustic =
     ''You strongly prefer acoustic and organic-sounding music over electronic productions.''"

definition msgElectronic :: string where
  "msgElectronic =
     ''You lean towards electronic and heavily produced music over acoustic arrangements.''"

definition msgMoodPredictable :: string where
  "msgMoodPredictable =
     ''Your mood preferences are highly predictable, showing consistent emotional patterns in your music choices.''"

definition msgNextPredictable :: string where
  "msgNextPredictable =
     ''Your listening patterns are highly consistent, making your next music choices quite predictable.''"

definition msgFallback :: string where
  "msgFallback =
     ''Your listening patterns show interesting complexity that requires more data to fully understand.''"

definition recUplifting :: string where
  "recUplifting =
     ''Try exploring more uplifting genres like reggae, pop-punk, or upbeat folk music.''"

definition recContemplative :: string where
  "recContemplative =
     ''Consider diving into contemplative genres like ambient, melancholic indie, or classical music.''"

definition recHighEnergy :: string where
  "recHighEnergy =
     ''You might enjoy high-energy genres like electronic dance music, punk rock, or Latin rhythms.''"

definition recCalming :: string where
  "recCalming =
     ''Explore calming genres like lo-fi hip hop, acoustic folk, or meditation music.''"

definition recNewGenre :: string where
  "recNewGenre =
     ''Challenge yourself by exploring a new genre outside your comfort zone this week.''"

definition recThemedPlaylists :: string where
  "recThemedPlaylists =
     ''Your diverse taste is excellent! Consider creating themed playlists to organize your broad preferences.''"

text \<open>The template strings of the source, as functions of the interpolated part.\<close>

definition msgEnergyModerate :: "string \<Rightarrow> string" where
  "msgEnergyModerate energyTrend =
     ''Your energy preferences are moderate and balanced. The model predicts your next choices will trend towards ''
     @ energyTrend @ '' energy levels.''"

definition msgKeyPreference :: "string \<Rightarrow> string" where
  "msgKeyPreference keyName =
     ''You show a preference for music in '' @ keyName @
     '', which might contribute to a consistent harmonic feel in your listening.''"

definition msgTempoConsistent :: "string \<Rightarrow> string" where
  "msgTempoConsistent dominantRange =
     ''Your tempo preferences are consistent, clustering around '' @ dominantRange @ '' BPM.''"

definition generateMoodInsight :: "TrackFeatures list \<Rightarrow> ModelPredictions \<Rightarrow> string" where
  "generateMoodInsight tracks predictions =
     (let avgValence = mean (map valence tracks);
          predictedValence = mood_valence (mood_prediction predictions)
      in
      if js_gt predictedValence 0.7 then
        (if avgValence > 0.7 then msgMoodPositive else msgMoodUpliftingShift)
      else if js_lt predictedValence 0.3 then
        (if avgValence < 0.3 then msgMoodMelancholic else msgMoodContemplativeShift)
      else msgMoodBalanced)"

definition generateEnergyInsight :: "TrackFeatures list \<Rightarrow> ModelPredictions \<Rightarrow> string" where
  "generateEnergyInsight tracks predictions =
     (let avgEnergy = mean (map energy tracks);
          energyVariance = standardDeviation (map energy tracks);
          predictedEnergy = mood_energy (mood_prediction predictions)
      in
      if avgEnergy > 0.7 then
        (if energyVariance < 0.2 then msgEnergyHighSteady else msgEnergyHighVaried)
      else if avgEnergy < 0.3 then msgEnergyCalm
      else
        (let energyTrend = (if js_gt predictedEnergy avgEnergy then ''increasing'' else ''decreasing'')
         in msgEnergyModerate energyTrend))"

text \<open>
  \<^verbatim>\<open>weekendTracks / tracks.length\<close> is \<^verbatim>\<open>NaN\<close> on an empty batch (\<open>0 / 0\<close>), and
  both comparisons of the ratio are then false.
\<close>

definition generateTimingInsight :: "TrackFeatures list \<Rightarrow> string" where
  "generateTimingInsight tracks =
     (let hours = map (\<lambda>t. hour_of_day t * 24) tracks;
          avgHour = mean hours;
          weekendTracks = length (filter (\<lambda>t. is_weekend t > 0.5) tracks);
          weekendRatio = (if length tracks = 0 then None
                          else Some (real weekendTracks / real (length tracks)));
          timeInsight =
            (if avgHour < 6 then msgTimeNightOwl
             else if avgHour < 12 then msgTimeEarlyBird
             else if avgHour < 18 then msgTimeAfternoon
             else msgTimeEvening)
      in
      if js_gt weekendRatio 0.7 then timeInsight @ msgWeekendHeavy
      else if js_lt weekendRatio 0.3 then timeInsight @ msgWeekdayHeavy
      else timeInsight @ msgWeekBalanced)"

definition generateDiversityInsight :: "TrackFeatures list \<Rightarrow> string" where
  "generateDiversityInsight tracks =
     (let features = [danceability, energy, valence, acousticness, instrumentalness];
          diversityScores = map (\<lambda>feature. standardDeviation (map feature tracks)) features;
          avgDiversity = mean diversityScores
      in
      if avgDiversity > 0.25 then msgDiversityHigh
      else if avgDiversity > 0.15 then msgDiversityModerate
      else msgDiversityLow)"

text \<open>
  \<^verbatim>\<open>analyzeKeyDistribution\<close>. The counter array holds numbers; an entry is \<^term>\<open>None\<close>
  when it is \<^verbatim>\<open>NaN\<close> or a hole, which happens only when a rounded key lies past
  index 11: \<^verbatim>\<open>keyCount[key]++\<close> then extends the array with \<^verbatim>\<open>NaN\<close>. A negative
  index sets a property that is no array element. \<^verbatim>\<open>Math.max\<close> of an array with
  such an entry is \<^verbatim>\<open>NaN\<close>.
\<close>

definition incrementAt :: "nat option list \<Rightarrow> int \<Rightarrow> nat option list" where
  "incrementAt keyCount k =
     (if k < 0 then keyCount
      else if nat k < length keyCount
        then keyCount[nat k := map_option Suc (keyCount ! nat k)]
      else keyCount @ replicate (nat k - length keyCount) None @ [None])"

definition math_max :: "nat option list \<Rightarrow> nat option" where
  "math_max xs = (if None \<in> set xs then None else Some (fold max (map the xs) 0))"

primrec indexOf :: "'a list \<Rightarrow> 'a \<Rightarrow> int" where
  "indexOf [] v = - 1"
| "indexOf (x # xs) v =
     (if x = v then 0 else (let r = indexOf xs v in if r < 0 then - 1 else r + 1))"

record KeyDistribution =
  dominantKey :: "int option"
  distribution :: "real option list"

definition analyzeKeyDistribution :: "TrackFeatures list \<Rightarrow> KeyDistribution" where
  "analyzeKeyDistribution tracks =
     (let keyCount = fold (\<lambda>track keyCount. incrementAt keyCount (math_round (key track * 11)))
                       tracks (replicate 12 (Some 0));
          maxCount = math_max keyCount;
          dominantKey =
            (case maxCount of
               None \<Rightarrow> None
             | Some m \<Rightarrow>
                 if real m > real (length tracks) * 0.2 then Some (indexOf keyCount (Some m))
                 else None)
      in \<lparr> dominantKey = dominantKey,
           distribution =
             map (\<lambda>count. if length tracks = 0 then None
                           else map_option (\<lambda>n. real n / real (length tracks)) count)
               keyCount \<rparr>)"

text \<open>
  \<^verbatim>\<open>analyzeTempoPatterns\<close>. The coefficient of variation divides by the mean tempo;
  when that mean is \<open>0\<close> the quotient is \<^verbatim>\<open>NaN\<close> or \<^verbatim>\<open>Infinity\<close>, which is below
  no threshold: \<^term>\<open>None\<close>.
\<close>

record TempoAnalysis =
  variance :: "real option"
  dominantRange :: string

definition analyzeTempoPatterns :: "TrackFeatures list \<Rightarrow> TempoAnalysis" where
  "analyzeTempoPatterns tracks =
     (let tempos = map (\<lambda>t. tempo t * 150 + 50) tracks;
          variance = (if mean tempos = 0 then None
                      else Some (standardDeviation tempos / mean tempos));
          avgTempo = mean tempos;
          dominantRange =
            (if avgTempo < 80 then ''slow (60-80)''
             else if avgTempo < 110 then ''moderate (80-110)''
             else if avgTempo < 140 then ''upbeat (110-140)''
             else ''fast (140+)'')
      in \<lparr> variance = variance, dominantRange = dominantRange \<rparr>)"

definition analyzeAcousticPreference :: "TrackFeatures list \<Rightarrow> real" where
  "analyzeAcousticPreference tracks =
     (let acousticScores =
            map (\<lambda>t. (acousticness t * 0.7) + (instrumentalness t * 0.3) - (energy t * 0.2)) tracks
      in mean acousticScores)"

text \<open>The sharp and flat signs of the key names, as their UTF-8 bytes.\<close>

definition sharpSign :: string where
  "sharpSign = [CHR 0xE2, CHR 0x99, CHR 0xAF]"

definition flatSign :: string where
  "flatSign = [CHR 0xE2, CHR 0x99, CHR 0xAD]"

definition keyNames :: "string list" where
  "keyNames =
     [ ''C'', ''C'' @ sharpSign @ ''/D'' @ flatSign, ''D'', ''D'' @ sharpSign @ ''/E'' @ flatSign,
       ''E'', ''F'', ''F'' @ sharpSign @ ''/G'' @ flatSign, ''G'',
       ''G'' @ sharpSign @ ''/A'' @ flatSign, ''A'', ''A'' @ sharpSign @ ''/B'' @ flatSign, ''B'' ]"

text \<open>\<^verbatim>\<open>keyNames[k]\<close> inside a template string: \<^verbatim>\<open>undefined\<close> prints as such.\<close>

definition keyNameAt :: "int \<Rightarrow> string" where
  "keyNameAt k =
     (if k < 0 then ''undefined''
      else case at_index keyNames (nat k) of None \<Rightarrow> ''undefined'' | Some n \<Rightarrow> n)"

definition generatePatternInsights :: "TrackFeatures list \<Rightarrow> ModelPredictions \<Rightarrow> string list" where
  "generatePatternInsights tracks predictions =
     (let patterns = [];
          avgSkipRate = mean (map skip_rate tracks);
          patterns =
            (if avgSkipRate > 0.3 then patterns @ [msgSkipFrequently]
             else if avgSkipRate < 0.1 then patterns @ [msgRarelySkip]
             else patterns);
          avgRepeatCount = mean (map repeat_count tracks);
          patterns = (if avgRepeatCount > 0.2 then patterns @ [msgReplay] else patterns);
          keyDistribution = analyzeKeyDistribution tracks;
          patterns =
            (case dominantKey keyDistribution of
               None \<Rightarrow> patterns
             | Some k \<Rightarrow>
                 patterns @ [msgKeyPreference (keyNameAt k)]);
          tempoAnalysis = analyzeTempoPatterns tracks;
          patterns =
            (if js_lt (variance tempoAnalysis) 0.1
             then patterns @ [msgTempoConsistent (dominantRange tempoAnalysis)]
             else patterns @ [msgTempoVaried]);
          acousticPreference = analyzeAcousticPreference tracks;
          patterns =
            (if acousticPreference > 0.7 then patterns @ [msgAcoustic]
             else if acousticPreference < 0.3 then patterns @ [msgElectronic]
             else patterns);
          patterns =
            (if conf_mood (confidence_scores predictions) > 0.8
             then patterns @ [msgMoodPredictable] else patterns);
          patterns =
            (if conf_next_track (confidence_scores predictions) > 0.8
             then patterns @ [msgNextPredictable] else patterns)
      in if length patterns > 0 then patterns else [msgFallback])"

record ListeningInsights =
  insight_mood :: string
  insight_energy :: string
  insight_timing :: string
  insight_diversity :: string
  insight_patterns :: "string list"

definition generateInsights :: "TrackFeatures list \<Rightarrow> ModelPredictions \<Rightarrow> ListeningInsights" where
  "generateInsights tracks predictions =
     \<lparr> insight_mood = generateMoodInsight tracks predictions,
       insight_energy = generateEnergyInsight tracks predictions,
       insight_timing = generateTimingInsight tracks,
       insight_diversity = generateDiversityInsight tracks,
       insight_patterns = generatePatternInsights tracks predictions \<rparr>"

definition generateRecommendations :: "TrackFeatures list \<Rightarrow> ModelPredictions \<Rightarrow> string list" where
  "generateRecommendations tracks predictions =
     (let recommendations = [];
          avgValence = mean (map valence tracks);
          avgEnergy = mean (map energy tracks);
          recommendations =
            (if js_gt (mood_valence (mood_prediction predictions)) (avgValence + 0.2)
             then recommendations @ [recUplifting]
             else if js_lt (mood_valence (mood_prediction predictions)) (avgValence - 0.2)
             then recommendations @ [recContemplative]
             else recommendations);
          recommendations =
            (if js_gt (mood_energy (mood_prediction predictions)) (avgEnergy + 0.2)
             then recommendations @ [recHighEnergy]
             else if js_lt (mood_energy (mood_prediction predictions)) (avgEnergy - 0.2)
             then recommendations @ [recCalming]
             else recommendations);
          diversity = generateDiversityInsight tracks;
          recommendations =
            (if str_includes diversity ''consistent'' then recommendations @ [recNewGenre]
             else if str_includes diversity ''diverse'' then recommendations @ [recThemedPlaylists]
             else recommendations)
      in recommendations)"

text \<open>Example predictions with a given predicted valence.\<close>

definition exPredictions :: "real \<Rightarrow> ModelPredictions" where
  "exPredictions v =
     \<lparr> mood_prediction =
         \<lparr> mood_valence = Some v, mood_energy = Some 0.85, mood_arousal = Some 0.5 \<rparr>,
       pattern_embedding = [v, 0.85, 0.5],
       next_track_prediction =
         \<lparr> next_valence = Some v, next_energy = Some 0.85, next_danceability = Some 0.5 \<rparr>,
       confidence_scores = \<lparr> conf_mood = 0.85, conf_next_track = 0.80 \<rparr> \<rparr>"

definition exBatch :: "TrackFeatures list" where
  "exBatch = replicate 20 (exTrack 0.9 0.85 0.05)"

section \<open>Properties of the analysis endpoint\<close>

lemma performAnalysis_Inr:
  assumes "performAnalysis model vec now tracks options = Inr r"
  obtains predict inputTensor predictionTensor where
    "model = Some predict" "tracks \<noteq> []"
    "tensor2d (map vec tracks) = Inr inputTensor"
    "predict inputTensor = Inr predictionTensor"
    "r = \<lparr> result_predictions =
            \<lparr> mood_prediction =
                \<lparr> mood_valence = at_index (data predictionTensor) 0,
                  mood_energy = at_index (data predictionTensor) 1,
                  mood_arousal = at_index (data predictionTensor) 2 \<rparr>,
              pattern_embedding = take 10 (data predictionTensor),
              next_track_prediction =
                \<lparr> next_valence = at_index (data predictionTensor) 0,
                  next_energy = at_index (data predictionTensor) 1,
                  next_danceability = at_index (data predictionTensor) 2 \<rparr>,
              confidence_scores = \<lparr> conf_mood = 0.85, conf_next_track = 0.80 \<rparr> \<rparr>,
          result_metadata =
            \<lparr> tracks_analyzed = length tracks, analysis_timestamp = now,
              model_version = ''1.0.0'' \<rparr> \<rparr>"
  using assms
  by (auto simp: performAnalysis_def Let_def split: option.splits if_splits sum.splits)

lemma performAnalysis_example:
  "performAnalysis (Some exModel) exVectorizer 0 [exTrack 0.9 0.85 0.05] None = Inr exOutput"
  by (simp add: performAnalysis_def tensor2d_def data_def at_index_def exModel_def
      exVectorizer_def exTrack_def exOutput_def)

text \<open>
  C1. Every analysis that reaches prediction reports the confidence scores
  mood = 0.85 and next_track = 0.80, whatever the tracks, the vectoriser and the
  model's output are.
\<close>

theorem performAnalysis_confidence_constant:
  assumes "performAnalysis model vec now tracks options = Inr r"
  shows "conf_mood (confidence_scores (result_predictions r)) = 0.85
       \<and> conf_next_track (confidence_scores (result_predictions r)) = 0.80"
  using assms by (elim performAnalysis_Inr) simp

theorem performAnalysis_confidence_constant_witness:
  "performAnalysis (Some exModel) exVectorizer 0 [exTrack 0.9 0.85 0.05] None = Inr exOutput
   \<and> conf_mood (confidence_scores (result_predictions exOutput)) = 0.85
   \<and> conf_next_track (confidence_scores (result_predictions exOutput)) = 0.80"
  using performAnalysis_confidence_constant [OF performAnalysis_example] performAnalysis_example
  by simp

lemma performAnalysis_example2:
  "performAnalysis (Some exModel) exVectorizer 7
     [exTrack 0.9 0.85 0.05, exTrack 0.1 0.2 0.5] None = Inr exOutput2"
  by (simp add: performAnalysis_def tensor2d_def data_def at_index_def exModel_def
      exVectorizer_def exTrack_def exOutput2_def)

lemma exModel_example2:
  "exModel (map exVectorizer [exTrack 0.9 0.85 0.05, exTrack 0.1 0.2 0.5]) =
     Inr [[0.9, 0.85, 0.5], [0.1, 0.2, 0.5]]"
  by (simp add: exModel_def exVectorizer_def exTrack_def)

text \<open>
  C10. For a request with at least one track, the reported mood prediction and
  next-track prediction are the components 0, 1 and 2 of the flattened prediction
  tensor, and the pattern embedding is its first 10 components. When the model
  returns three numbers per track, these three are the row of the first track,
  whatever the remaining rows hold.
\<close>

theorem performAnalysis_uses_first_row:
  assumes run: "performAnalysis (Some predict) vec now tracks options = Inr r"
    and out: "predict (map vec tracks) = Inr out"
  shows "tracks \<noteq> []
       \<and> mood_prediction (result_predictions r) =
           \<lparr> mood_valence = at_index (data out) 0, mood_energy = at_index (data out) 1,
             mood_arousal = at_index (data out) 2 \<rparr>
       \<and> next_track_prediction (result_predictions r) =
           \<lparr> next_valence = at_index (data out) 0, next_energy = at_index (data out) 1,
             next_danceability = at_index (data out) 2 \<rparr>
       \<and> pattern_embedding (result_predictions r) = take 10 (data out)
       \<and> (\<forall>row rest. out = row # rest \<and> length row = 3 \<longrightarrow>
             mood_prediction (result_predictions r) =
               \<lparr> mood_valence = Some (row ! 0), mood_energy = Some (row ! 1),
                 mood_arousal = Some (row ! 2) \<rparr>
           \<and> next_track_prediction (result_predictions r) =
               \<lparr> next_valence = Some (row ! 0), next_energy = Some (row ! 1),
                 next_danceability = Some (row ! 2) \<rparr>)"
proof -
  from run obtain inputTensor predictionTensor where
    ne: "tracks \<noteq> []"
    and inp: "tensor2d (map vec tracks) = Inr inputTensor"
    and pr: "predict inputTensor = Inr predictionTensor"
    and r: "result_predictions r =
            \<lparr> mood_prediction =
                \<lparr> mood_valence = at_index (data predictionTensor) 0,
                  mood_energy = at_index (data predictionTensor) 1,
                  mood_arousal = at_index (data predictionTensor) 2 \<rparr>,
              pattern_embedding = take 10 (data predictionTensor),
              next_track_prediction =
                \<lparr> next_valence = at_index (data predictionTensor) 0,
                  next_energy = at_index (data predictionTensor) 1,
                  next_danceability = at_index (data predictionTensor) 2 \<rparr>,
              confidence_scores = \<lparr> conf_mood = 0.85, conf_next_track = 0.80 \<rparr> \<rparr>"
    by (elim performAnalysis_Inr) simp
  from ne inp have "inputTensor = map vec tracks"
    by (simp add: tensor2d_def)
  with pr out have same: "predictionTensor = out"
    by simp
  have first: "at_index (data (row # rest)) 0 = Some (row ! 0)
             \<and> at_index (data (row # rest)) 1 = Some (row ! 1)
             \<and> at_index (data (row # rest)) 2 = Some (row ! 2)"
    if "length row = 3" for row :: "real list" and rest
    using that by (simp add: at_index_def data_def nth_append)
  show ?thesis
    using ne r same first by auto
qed

theorem performAnalysis_uses_first_row_witness:
  "performAnalysis (Some exModel) exVectorizer 7
     [exTrack 0.9 0.85 0.05, exTrack 0.1 0.2 0.5] None = Inr exOutput2
   \<and> exModel (map exVectorizer [exTrack 0.9 0.85 0.05, exTrack 0.1 0.2 0.5]) =
       Inr [[0.9, 0.85, 0.5], [0.1, 0.2, 0.5]]
   \<and> length [0.9, 0.85, 0.5 :: real] = 3
   \<and> mood_prediction (result_predictions exOutput2) =
       \<lparr> mood_valence = Some 0.9, mood_energy = Some 0.85, mood_arousal = Some 0.5 \<rparr>
   \<and> pattern_embedding (result_predictions exOutput2) = take 10 [0.9, 0.85, 0.5, 0.1, 0.2, 0.5]"
  using performAnalysis_uses_first_row [OF performAnalysis_example2 exModel_example2]
    performAnalysis_example2 exModel_example2
  by (simp add: data_def at_index_def exOutput2_def)

section \<open>Properties of the training pipeline\<close>

declare sessionLoop.simps [simp del]

lemma or_zero_case: "or_zero v = (case v of None \<Rightarrow> 0 | Some x \<Rightarrow> x / 1)"
  by (simp add: or_zero_def split: option.split)

lemma div_or_zero_case: "div_or_zero v d = (case v of None \<Rightarrow> 0 | Some x \<Rightarrow> x / d)"
  by (simp add: div_or_zero_def or_zero_def split: option.split)

lemma trackFeaturesToVector_table:
  "trackFeaturesToVector f =
     map (\<lambda>(name, d). case f name of None \<Rightarrow> 0 | Some x \<Rightarrow> x / d) fieldOrder"
  unfolding trackFeaturesToVector_def fieldOrder_def or_zero_case div_or_zero_case
  by (simp only: list.map prod.case)

lemma length_fieldOrder: "length fieldOrder = 20"
  by (simp add: fieldOrder_def)

text \<open>
  C5. For every feature object the vector has exactly 20 components in the fixed
  field order, danceability first and playlist_position last; tempo is divided by
  200 and duration_ms by 300000; a field that is absent contributes 0. The function
  is total: it has no error result.
\<close>

theorem trackFeaturesToVector_contract:
  "length (trackFeaturesToVector f) = 20
   \<and> trackFeaturesToVector f =
       map (\<lambda>(name, d). case f name of None \<Rightarrow> 0 | Some x \<Rightarrow> x / d) fieldOrder
   \<and> trackFeaturesToVector f ! 0 = (case f ''danceability'' of None \<Rightarrow> 0 | Some x \<Rightarrow> x)
   \<and> trackFeaturesToVector f ! 19 = (case f ''playlist_position'' of None \<Rightarrow> 0 | Some x \<Rightarrow> x)
   \<and> trackFeaturesToVector f ! 10 = (case f ''tempo'' of None \<Rightarrow> 0 | Some x \<Rightarrow> x / 200)
   \<and> trackFeaturesToVector f ! 11 = (case f ''duration_ms'' of None \<Rightarrow> 0 | Some x \<Rightarrow> x / 300000)
   \<and> (\<forall>i<20. f (fst (fieldOrder ! i)) = None \<longrightarrow> trackFeaturesToVector f ! i = 0)"
proof -
  have len: "length (trackFeaturesToVector f) = 20"
    by (simp add: trackFeaturesToVector_def)
  have c0: "trackFeaturesToVector f ! 0 = (case f ''danceability'' of None \<Rightarrow> 0 | Some x \<Rightarrow> x)"
    by (simp add: trackFeaturesToVector_def or_zero_def split: option.split)
  have c19: "trackFeaturesToVector f ! 19 =
      (case f ''playlist_position'' of None \<Rightarrow> 0 | Some x \<Rightarrow> x)"
    by (simp add: trackFeaturesToVector_def or_zero_def split: option.split)
  have c10: "trackFeaturesToVector f ! 10 = (case f ''tempo'' of None \<Rightarrow> 0 | Some x \<Rightarrow> x / 200)"
    by (simp add: trackFeaturesToVector_def div_or_zero_case)
  have c11: "trackFeaturesToVector f ! 11 =
      (case f ''duration_ms'' of None \<Rightarrow> 0 | Some x \<Rightarrow> x / 300000)"
    by (simp add: trackFeaturesToVector_def div_or_zero_case)
  have absent: "trackFeaturesToVector f ! i = 0"
    if "i < 20" "f (fst (fieldOrder ! i)) = None" for i
  proof -
    from that(1) have "i < length fieldOrder" by (simp add: length_fieldOrder)
    then have "trackFeaturesToVector f ! i =
        (case fieldOrder ! i of (name, d) \<Rightarrow> case f name of None \<Rightarrow> 0 | Some x \<Rightarrow> x / d)"
      by (simp add: trackFeaturesToVector_table)
    with that(2) show ?thesis
      by (cases "fieldOrder ! i") simp
  qed
  from len c0 c19 c10 c11 absent show ?thesis
    using trackFeaturesToVector_table by blast
qed

theorem trackFeaturesToVector_contract_witness:
  "(2::nat) < 20 \<and> exFeatures (fst (fieldOrder ! 2)) = None
   \<and> trackFeaturesToVector exFeatures ! 2 = 0
   \<and> trackFeaturesToVector exFeatures ! 10 = 0.6
   \<and> trackFeaturesToVector exFeatures ! 11 = 0.8"
proof -
  have absent: "exFeatures (fst (fieldOrder ! 2)) = None"
    by (simp add: exFeatures_def fieldOrder_def)
  have tempo: "exFeatures ''tempo'' = Some 120" and dur: "exFeatures ''duration_ms'' = Some 240000"
    by (simp_all add: exFeatures_def)
  note c = trackFeaturesToVector_contract [of exFeatures]
  from c have "\<forall>i<20. exFeatures (fst (fieldOrder ! i)) = None \<longrightarrow>
      trackFeaturesToVector exFeatures ! i = 0"
    by (elim conjE)
  with absent have v2: "trackFeaturesToVector exFeatures ! 2 = 0"
    by simp
  from c have "trackFeaturesToVector exFeatures ! 10 =
      (case exFeatures ''tempo'' of None \<Rightarrow> 0 | Some x \<Rightarrow> x / 200)"
    by (elim conjE)
  then have v10: "trackFeaturesToVector exFeatures ! 10 = 0.6"
    by (simp add: tempo)
  from c have "trackFeaturesToVector exFeatures ! 11 =
      (case exFeatures ''duration_ms'' of None \<Rightarrow> 0 | Some x \<Rightarrow> x / 300000)"
    by (elim conjE)
  then have v11: "trackFeaturesToVector exFeatures ! 11 = 0.8"
    by (simp add: dur)
  from absent v2 v10 v11 show ?thesis by simp
qed

lemma sessionLoop_from:
  "sessionLoop ts i (ins, labs) =
     (ins @ map fst (concat (map (pairAt ts) [i..<length ts - 1])),
      labs @ map snd (concat (map (pairAt ts) [i..<length ts - 1])))"
proof (induction "length ts - i" arbitrary: i ins labs)
  case 0
  then have "\<not> int i < int (length ts) - 1" and "[i..<length ts - 1] = []" by auto
  then show ?case by (simp add: sessionLoop.simps[of ts i])
next
  case (Suc n)
  show ?case
  proof (cases "int i < int (length ts) - 1")
    case False
    then have "[i..<length ts - 1] = []" by simp
    with False show ?thesis by (simp add: sessionLoop.simps[of ts i])
  next
    case True
    then have upt: "[i..<length ts - 1] = i # [i + 1..<length ts - 1]"
      by (simp add: upt_conv_Cons)
    from Suc.hyps(2) have n: "n = length ts - (i + 1)" by simp
    note IH = Suc.hyps(1)[OF n]
    show ?thesis
    proof (cases "track_features (ts ! i)")
      case None
      with True upt IH show ?thesis
        by (simp add: sessionLoop.simps[of ts i] pairAt_def)
    next
      case (Some cf)
      note cf = this
      show ?thesis
      proof (cases "track_features (ts ! (i + 1))")
        case None
        with True upt cf IH show ?thesis
          by (simp add: sessionLoop.simps[of ts i] pairAt_def)
      next
        case (Some nf)
        with True upt cf IH show ?thesis
          by (simp add: sessionLoop.simps[of ts i] pairAt_def Let_def)
      qed
    qed
  qed
qed

lemma sessionLoop_adjacentPairs:
  "sessionLoop ts 0 (ins, labs) =
     (ins @ map fst (adjacentPairs ts), labs @ map snd (adjacentPairs ts))"
  by (simp add: sessionLoop_from adjacentPairs_def)

lemma fold_sessions:
  "fold (\<lambda>session acc. sessionLoop (session_tracks session) 0 acc) sessions (ins, labs) =
     (ins @ map fst (concat (map (\<lambda>s. adjacentPairs (session_tracks s)) sessions)),
      labs @ map snd (concat (map (\<lambda>s. adjacentPairs (session_tracks s)) sessions)))"
  by (induction sessions arbitrary: ins labs) (simp_all add: sessionLoop_adjacentPairs)

lemma extractExamples_eq:
  "extractExamples sessions =
     (map fst (concat (map (\<lambda>s. adjacentPairs (session_tracks s)) sessions)),
      map snd (concat (map (\<lambda>s. adjacentPairs (session_tracks s)) sessions)))"
  by (simp add: extractExamples_def fold_sessions)

lemma length_extract:
  "extractExamples sessions = (ins, labs) \<Longrightarrow> length labs = length ins"
  by (auto simp: extractExamples_eq)

text \<open>
  C4. The examples taken from a session are exactly those at the adjacent index
  pairs \<open>(i, i + 1)\<close>, in order, where both tracks carry a feature payload: such a
  pair yields the current track's vector and the next track's (valence, energy,
  danceability); a pair in which either track lacks the payload yields nothing. The
  loop is total (it has no error result), and a session of 3 tracks of which 2 lack
  the payload yields at most 1 pair.
\<close>

theorem sessionLoop_adjacent_pairs:
  "sessionLoop ts 0 (ins, labs) =
     (ins @ map fst (concat (map (pairAt ts) [0..<length ts - 1])),
      labs @ map snd (concat (map (pairAt ts) [0..<length ts - 1])))
   \<and> (\<forall>i. track_features (ts ! i) = None \<or> track_features (ts ! (i + 1)) = None
          \<longrightarrow> pairAt ts i = [])
   \<and> (\<forall>i cur nxt. track_features (ts ! i) = Some cur \<and> track_features (ts ! (i + 1)) = Some nxt
          \<longrightarrow> pairAt ts i =
                [(trackFeaturesToVector cur, [nxt ''valence'', nxt ''energy'', nxt ''danceability''])])
   \<and> (length ts = 3 \<and> length (filter (\<lambda>t. track_features t = None) ts) = 2
          \<longrightarrow> length (fst (sessionLoop ts 0 ([], []))) \<le> 1
            \<and> length (snd (sessionLoop ts 0 ([], []))) \<le> 1)"
proof -
  have dropped: "pairAt ts i = []"
    if "track_features (ts ! i) = None \<or> track_features (ts ! (i + 1)) = None" for i
    using that by (auto simp: pairAt_def split: option.split)
  have kept: "pairAt ts i =
      [(trackFeaturesToVector cur, [nxt ''valence'', nxt ''energy'', nxt ''danceability''])]"
    if "track_features (ts ! i) = Some cur \<and> track_features (ts ! (i + 1)) = Some nxt"
    for i cur nxt
    using that by (simp add: pairAt_def)
  have scenario: "length (fst (sessionLoop ts 0 ([], []))) \<le> 1
                \<and> length (snd (sessionLoop ts 0 ([], []))) \<le> 1"
    if len: "length ts = 3" and miss: "length (filter (\<lambda>t. track_features t = None) ts) = 2"
  proof -
    from len obtain a b c where ts: "ts = [a, b, c]"
      by (auto simp: length_Suc_conv eval_nat_numeral)
    have upt: "[0..<length ts - 1] = [0, 1]"
      by (simp add: ts upt_rec)
    from miss have "track_features b = None \<or> (track_features a = None \<and> track_features c = None)"
      by (auto simp: ts split: if_splits)
    then have "length (pairAt ts 0 @ pairAt ts 1) \<le> 1"
      by (auto simp: ts pairAt_def split: option.split)
    then show ?thesis
      unfolding sessionLoop_from upt by simp
  qed
  from dropped kept scenario show ?thesis
    by (simp add: sessionLoop_from)
qed

theorem sessionLoop_adjacent_pairs_witness:
  "length exSessionB = 3
   \<and> length (filter (\<lambda>t. track_features t = None) exSessionB) = 2
   \<and> track_features (exSessionB ! 0) = None
   \<and> pairAt exSessionB 0 = []
   \<and> length (fst (sessionLoop exSessionB 0 ([], []))) \<le> 1"
proof -
  have h1: "length exSessionB = 3"
    by (simp add: exSessionB_def)
  have h2: "length (filter (\<lambda>t. track_features t = None) exSessionB) = 2"
    by (simp add: exSessionB_def mkTrack_def)
  have h3: "track_features (exSessionB ! 0) = None"
    by (simp add: exSessionB_def mkTrack_def)
  note c = sessionLoop_adjacent_pairs [of exSessionB "[]" "[]"]
  from c h3 have p: "pairAt exSessionB 0 = []"
    by blast
  from c h1 h2 have "length (fst (sessionLoop exSessionB 0 ([], []))) \<le> 1"
    by blast
  with h1 h2 h3 p show ?thesis by simp
qed

subsection \<open>Rounding to binary64\<close>

lemma round_half_even_bounds:
  "of_int \<lfloor>x\<rfloor> \<le> (of_int (round_half_even x) :: real)" "round_half_even x \<le> \<lfloor>x\<rfloor> + 1"
  by (simp_all add: round_half_even_def Let_def)

lemma round_half_even_int [simp]: "round_half_even (of_int k) = k"
  by (simp add: round_half_even_def)

lemma round_half_even_mono:
  assumes "a \<le> b"
  shows "round_half_even a \<le> round_half_even b"
proof (cases "\<lfloor>a\<rfloor> = \<lfloor>b\<rfloor>")
  case True
  then have "a - of_int \<lfloor>a\<rfloor> \<le> b - of_int \<lfloor>b\<rfloor>" using assms by simp
  with True show ?thesis
    by (auto simp: round_half_even_def Let_def)
next
  case False
  with assms have "\<lfloor>a\<rfloor> < \<lfloor>b\<rfloor>" by (simp add: floor_mono order.strict_iff_order)
  then have "round_half_even a \<le> \<lfloor>b\<rfloor>"
    using round_half_even_bounds(2)[of a] by linarith
  also have "\<dots> \<le> round_half_even b"
    using round_half_even_bounds(1)[of b] by simp
  finally show ?thesis .
qed

lemma round_half_even_le: "a \<le> of_int k \<Longrightarrow> round_half_even a \<le> k"
  using round_half_even_mono[of a "of_int k"] by simp

lemma round_half_even_ge: "of_int k \<le> a \<Longrightarrow> k \<le> round_half_even a"
  using round_half_even_mono[of "of_int k" a] by simp

lemma binary_exponent_upper: "x \<noteq> 0 \<Longrightarrow> \<bar>x\<bar> < 2 powr of_int (binary_exponent x + 1)"
proof -
  assume x: "x \<noteq> 0"
  then have pos: "0 < \<bar>x\<bar>" by simp
  have "\<bar>x\<bar> < 2 powr (of_int \<lfloor>log 2 \<bar>x\<bar>\<rfloor> + 1)"
    using floor_log_eq_powr_iff[OF pos, of 2 "\<lfloor>log 2 \<bar>x\<bar>\<rfloor>"] by simp
  also have "\<dots> \<le> 2 powr of_int (binary_exponent x + 1)"
    by (simp add: binary_exponent_def)
  finally show ?thesis .
qed

lemma binary_exponent_lower:
  "x \<noteq> 0 \<Longrightarrow> - 1022 < binary_exponent x \<Longrightarrow> 2 powr of_int (binary_exponent x) \<le> \<bar>x\<bar>"
proof -
  assume x: "x \<noteq> 0" and e: "- 1022 < binary_exponent x"
  then have pos: "0 < \<bar>x\<bar>" by simp
  from e have eq: "binary_exponent x = \<lfloor>log 2 \<bar>x\<bar>\<rfloor>"
    by (simp add: binary_exponent_def max_def split: if_splits)
  show ?thesis
    unfolding eq using floor_log_eq_powr_iff[OF pos, of 2 "\<lfloor>log 2 \<bar>x\<bar>\<rfloor>"] by simp
qed

lemma binary_exponent_mono:
  "0 < x \<Longrightarrow> x \<le> y \<Longrightarrow> binary_exponent x \<le> binary_exponent y"
proof -
  assume "0 < x" "x \<le> y"
  then have "log 2 \<bar>x\<bar> \<le> log 2 \<bar>y\<bar>" by simp
  then have "\<lfloor>log 2 \<bar>x\<bar>\<rfloor> \<le> \<lfloor>log 2 \<bar>y\<bar>\<rfloor>" by (rule floor_mono)
  then show ?thesis by (simp add: binary_exponent_def)
qed


lemma ulp_pos [simp]: "0 < ulp x"
  by (simp add: ulp_def)

lemma ulp_nonneg [simp]: "0 \<le> ulp x"
  using ulp_pos[of x] by (rule less_imp_le)

lemma ulp_53: "2 ^ 53 * ulp x = 2 powr of_int (binary_exponent x + 1)"
proof -
  have "(2::real) ^ 53 = 2 powr 53"
    using powr_realpow[of 2 53] by simp
  then have "2 ^ 53 * ulp x = 2 powr 53 * 2 powr of_int (binary_exponent x - 52)"
    by (simp only: ulp_def)
  also have "\<dots> = 2 powr (53 + of_int (binary_exponent x - 52))"
    by (simp only: powr_add)
  also have "53 + of_int (binary_exponent x - 52) = (of_int (binary_exponent x + 1) :: real)"
    by simp
  finally show ?thesis .
qed

lemma ulp_52: "2 ^ 52 * ulp x = 2 powr of_int (binary_exponent x)"
proof -
  have "(2::real) ^ 52 = 2 powr 52"
    using powr_realpow[of 2 52] by simp
  then have "2 ^ 52 * ulp x = 2 powr 52 * 2 powr of_int (binary_exponent x - 52)"
    by (simp only: ulp_def)
  also have "\<dots> = 2 powr (52 + of_int (binary_exponent x - 52))"
    by (simp only: powr_add)
  also have "52 + of_int (binary_exponent x - 52) = (of_int (binary_exponent x) :: real)"
    by simp
  finally show ?thesis .
qed

lemma binary64_nonneg: "0 \<le> x \<Longrightarrow> 0 \<le> binary64 x"
proof (cases "x = 0")
  case True
  then show ?thesis by (simp add: binary64_def)
next
  case False
  assume "0 \<le> x"
  then have "(of_int 0 :: real) \<le> x / ulp x" by (simp add: divide_nonneg_pos)
  then have "0 \<le> round_half_even (x / ulp x)" by (rule round_half_even_ge)
  with False show ?thesis by (simp add: binary64_def)
qed

lemma binary64_upper:
  assumes "0 < x"
  shows "binary64 x \<le> 2 powr of_int (binary_exponent x + 1)"
proof -
  have "x < 2 powr of_int (binary_exponent x + 1)"
    using binary_exponent_upper[of x] assms by simp
  then have "x < 2 ^ 53 * ulp x" by (simp only: ulp_53)
  then have "x / ulp x \<le> of_int (2 ^ 53)"
    by (simp add: pos_divide_le_eq)
  then have "round_half_even (x / ulp x) \<le> 2 ^ 53" by (rule round_half_even_le)
  then have "(of_int (round_half_even (x / ulp x)) :: real) \<le> 2 ^ 53"
    by (metis of_int_le_iff of_int_numeral of_int_power)
  then have "of_int (round_half_even (x / ulp x)) * ulp x \<le> 2 ^ 53 * ulp x"
    by (intro mult_right_mono) simp_all
  then show ?thesis using assms by (simp only: ulp_53 binary64_def) simp
qed

lemma binary64_lower:
  assumes "0 < x" "- 1022 < binary_exponent x"
  shows "2 powr of_int (binary_exponent x) \<le> binary64 x"
proof -
  have "2 powr of_int (binary_exponent x) \<le> x"
    using binary_exponent_lower[of x] assms by simp
  then have "2 ^ 52 * ulp x \<le> x" by (simp only: ulp_52)
  then have "of_int (2 ^ 52) \<le> x / ulp x"
    by (simp add: pos_le_divide_eq)
  then have "2 ^ 52 \<le> round_half_even (x / ulp x)" by (rule round_half_even_ge)
  then have "2 ^ 52 \<le> (of_int (round_half_even (x / ulp x)) :: real)"
    by (metis of_int_le_iff of_int_numeral of_int_power)
  then have "2 ^ 52 * ulp x \<le> of_int (round_half_even (x / ulp x)) * ulp x"
    by (intro mult_right_mono) simp_all
  then show ?thesis using assms by (simp only: ulp_52 binary64_def) simp
qed

lemma binary64_mono_pos:
  assumes x: "0 < x" and xy: "x \<le> y"
  shows "binary64 x \<le> binary64 y"
proof -
  from x xy have y: "0 < y" by simp
  have le: "binary_exponent x \<le> binary_exponent y"
    using x xy by (rule binary_exponent_mono)
  show ?thesis
  proof (cases "binary_exponent x = binary_exponent y")
    case True
    then have u: "ulp x = ulp y" by (simp add: ulp_def)
    have "x / ulp y \<le> y / ulp y" using xy by (rule divide_right_mono) simp
    then have "round_half_even (x / ulp y) \<le> round_half_even (y / ulp y)"
      by (rule round_half_even_mono)
    then have "of_int (round_half_even (x / ulp y)) * ulp y
        \<le> of_int (round_half_even (y / ulp y)) * ulp y"
      by (intro mult_right_mono) simp_all
    with x y u show ?thesis by (simp add: binary64_def)
  next
    case False
    with le have lt: "binary_exponent x < binary_exponent y" by simp
    have "binary64 x \<le> 2 powr of_int (binary_exponent x + 1)"
      using x by (rule binary64_upper)
    also have "\<dots> \<le> 2 powr of_int (binary_exponent y)"
      using lt by simp
    also have "\<dots> \<le> binary64 y"
    proof (rule binary64_lower[OF y])
      have "- 1022 \<le> binary_exponent x" by (simp add: binary_exponent_def)
      with lt show "- 1022 < binary_exponent y" by simp
    qed
    finally show ?thesis .
  qed
qed

lemma binary64_mono_nonneg: "0 \<le> x \<Longrightarrow> x \<le> y \<Longrightarrow> binary64 x \<le> binary64 y"
proof (cases "x = 0")
  case True
  assume "0 \<le> x" "x \<le> y"
  with True have "0 \<le> binary64 y" by (intro binary64_nonneg) simp
  with True show ?thesis by (simp add: binary64_def)
next
  case False
  assume "0 \<le> x" "x \<le> y"
  with False show ?thesis by (intro binary64_mono_pos) simp_all
qed

text \<open>Evaluation at a positive input whose binade is known.\<close>

lemma binary64_eval:
  assumes "0 < x" and "2 powr of_int e \<le> x" and "x < 2 powr of_int (e + 1)" and "- 1022 \<le> e"
  shows "binary64 x = of_int (round_half_even (x / 2 powr of_int (e - 52))) * 2 powr of_int (e - 52)"
proof -
  have "\<lfloor>log 2 \<bar>x\<bar>\<rfloor> = e"
    using floor_log_eq_powr_iff[of "\<bar>x\<bar>" 2 e] assms by simp
  with assms(4) have "binary_exponent x = e" by (simp add: binary_exponent_def)
  with assms(1) show ?thesis by (simp add: binary64_def ulp_def)
qed


lemma binary64_of_nat:
  assumes "n < 2 ^ 53"
  shows "binary64 (real n) = real n"
proof (cases "n = 0")
  case True
  then show ?thesis by (simp add: binary64_def)
next
  case False
  then have pos: "0 < real n" by simp
  define e where "e = binary_exponent (real n)"
  have "1 \<le> real n" using False by simp
  then have "0 \<le> log 2 (real n)" by simp
  then have e0: "0 \<le> e" by (simp add: e_def binary_exponent_def)
  have "real n < 2 ^ 53" using assms by (metis of_nat_less_iff of_nat_numeral of_nat_power)
  also have "(2::real) ^ 53 = 2 powr 53" using powr_realpow[of 2 53] by simp
  finally have "log 2 (real n) < 53" using pos by (simp add: log_less_iff)
  then have "\<lfloor>log 2 (real n)\<rfloor> < 53" by linarith
  then have e52: "e \<le> 52" by (simp add: e_def binary_exponent_def)
  have "(2::real) powr of_int (52 - e) = 2 ^ nat (52 - e)"
    using powr_realpow[of 2 "nat (52 - e)"] e52 by simp
  moreover have "ulp (real n) * 2 powr of_int (52 - e) = 1"
    by (simp add: ulp_def e_def[symmetric] powr_add[symmetric])
  ultimately have inv: "ulp (real n) * 2 ^ nat (52 - e) = 1" by simp
  have ne: "ulp (real n) \<noteq> 0" by (simp add: ulp_def)
  from inv ne have "2 ^ nat (52 - e) = 1 / ulp (real n)" by (simp add: field_simps)
  then have "real n / ulp (real n) = real n * 2 ^ nat (52 - e)" by simp
  also have "\<dots> = of_int (int n * 2 ^ nat (52 - e))" by simp
  finally have "round_half_even (real n / ulp (real n)) = int n * 2 ^ nat (52 - e)"
    by (simp only: round_half_even_int)
  then have "binary64 (real n) = real n * 2 ^ nat (52 - e) * ulp (real n)"
    using False by (simp add: binary64_def)
  also have "\<dots> = real n * (ulp (real n) * 2 ^ nat (52 - e))" by (simp add: mult_ac)
  finally show ?thesis by (simp only: inv mult_1_right)
qed

lemma is_number_of_nat: "n < 2 ^ 53 \<Longrightarrow> is_number (real n)"
proof -
  assume n: "n < 2 ^ 53"
  then have "real n < 2 ^ 53" by (metis of_nat_less_iff of_nat_numeral of_nat_power)
  also have "(2::real) ^ 53 < 2 ^ 1024" by simp
  finally show ?thesis using binary64_of_nat[OF n] by (simp add: is_number_def)
qed

lemma floor_fraction_bounds:
  fixes f :: real
  assumes "0 \<le> f" "f \<le> 1"
  shows "0 \<le> \<lfloor>real n * f\<rfloor>" and "\<lfloor>real n * f\<rfloor> \<le> int n"
proof -
  from assms have "0 \<le> real n * f" by simp
  then show "0 \<le> \<lfloor>real n * f\<rfloor>" by simp
  from assms have "real n * f \<le> real n * 1"
    by (intro mult_left_mono) simp_all
  then have "\<lfloor>real n * f\<rfloor> \<le> \<lfloor>real n\<rfloor>" by (intro floor_mono) simp
  then show "\<lfloor>real n * f\<rfloor> \<le> int n" by simp
qed

lemma number_times_floor_bounds:
  fixes f :: real
  assumes f0: "0 \<le> f" and f1: "f \<le> 1"
  shows "0 \<le> \<lfloor>number_times (real n) f\<rfloor>" and "\<lfloor>number_times (real n) f\<rfloor> \<le> int n"
proof -
  have both: "0 \<le> \<lfloor>number_times (real n) f\<rfloor> \<and> \<lfloor>number_times (real n) f\<rfloor> \<le> int n"
  proof (cases "is_number (real n) \<and> is_number f")
    case True
    then have nt: "number_times (real n) f = binary64 (real n * f)"
      by (simp add: number_times_def)
    have x0: "0 \<le> real n * f" using f0 by simp
    have xn: "real n * f \<le> real n" using f0 f1 by (simp add: mult_left_le)
    have "0 \<le> binary64 (real n * f)" using x0 by (rule binary64_nonneg)
    moreover have "binary64 (real n * f) \<le> binary64 (real n)"
      using x0 xn by (rule binary64_mono_nonneg)
    moreover have "binary64 (real n) = real n" using True by (simp add: is_number_def)
    ultimately have "0 \<le> binary64 (real n * f)" "binary64 (real n * f) \<le> real n" by simp_all
    then have "0 \<le> \<lfloor>binary64 (real n * f)\<rfloor>" "\<lfloor>binary64 (real n * f)\<rfloor> \<le> int n"
      by (simp_all add: floor_le_iff)
    with nt show ?thesis by simp
  next
    case False
    then have "number_times (real n) f = real n * f"
      by (auto simp: number_times_def)
    with floor_fraction_bounds[OF f0 f1, of n] show ?thesis by simp
  qed
  from both show "0 \<le> \<lfloor>number_times (real n) f\<rfloor>" and "\<lfloor>number_times (real n) f\<rfloor> \<le> int n"
    by simp_all
qed

lemma number_times_one:
  fixes f :: real
  assumes "0 \<le> f" "f < 1"
  shows "\<lfloor>number_times 1 f\<rfloor> = 0"
proof (cases "is_number 1 \<and> is_number f")
  case True
  then have "number_times 1 f = f" by (simp add: number_times_def is_number_def)
  with assms show ?thesis by (simp add: floor_eq_iff)
next
  case False
  then have "number_times 1 f = f" by (auto simp: number_times_def)
  with assms show ?thesis by (simp add: floor_eq_iff)
qed




lemma validationCount_one:
  fixes f :: real
  assumes "0 \<le> f" "f < 1"
  shows "validationCount 1 f = 0"
  using number_times_one[OF assms] by (simp add: validationCount_def)




lemma validationCount_fifty_058:
  "validationCount 50 (5224175567749775 / 9007199254740992) = 28"
proof -
  have r: "real (50::nat) = 50"
    by simp
  have "is_number (real (50::nat))"
    by (rule is_number_of_nat) simp
  then have fifty: "is_number 50"
    by (simp only: r)
  have "binary64 (5224175567749775 / 9007199254740992) =
      of_int (round_half_even (5224175567749775 / 9007199254740992 / 2 powr of_int (- 1 - 52)))
        * 2 powr of_int (- 1 - 52)"
    by (rule binary64_eval) (simp_all add: powr_minus)
  also have "(2::real) powr of_int (- 1 - 52) = 1 / 2 ^ 53"
    using powr_realpow[of 2 53] by (simp add: powr_minus_divide)
  also have "(5224175567749775 / 9007199254740992 :: real) / (1 / 2 ^ 53) =
      of_int 5224175567749775"
    by simp
  finally have "binary64 (5224175567749775 / 9007199254740992) =
      5224175567749775 / 9007199254740992"
    by (simp only: round_half_even_int) simp
  then have f: "is_number (5224175567749775 / 9007199254740992)"
    by (simp add: is_number_def)
  have "binary64 (50 * (5224175567749775 / 9007199254740992)) =
      of_int (round_half_even
        (50 * (5224175567749775 / 9007199254740992) / 2 powr of_int (4 - 52)))
        * 2 powr of_int (4 - 52)"
    by (rule binary64_eval) simp_all
  also have "(2::real) powr of_int (4 - 52) = 1 / 2 ^ 48"
    using powr_realpow[of 2 48] by (simp add: powr_minus_divide)
  also have "round_half_even (50 * (5224175567749775 / 9007199254740992) / (1 / 2 ^ 48)) =
      8162774324609023"
    by (simp add: round_half_even_def Let_def)
  finally have v: "binary64 (50 * (5224175567749775 / 9007199254740992)) =
      of_int 8162774324609023 * (1 / 2 ^ 48)" .
  have "\<lfloor>of_int 8162774324609023 * (1 / 2 ^ 48 :: real)\<rfloor> = 28"
    by simp
  with v have b: "\<lfloor>binary64 (50 * (5224175567749775 / 9007199254740992))\<rfloor> = 28"
    by (simp only:)
  from fifty f have "number_times 50 (5224175567749775 / 9007199254740992) =
      binary64 (50 * (5224175567749775 / 9007199254740992))"
    by (simp only: number_times_def simp_thms if_True)
  with b have "nat \<lfloor>number_times (real (50::nat)) (5224175567749775 / 9007199254740992)\<rfloor> = 28"
    by (simp only: r nat_numeral)
  then show ?thesis
    by (simp only: validationCount_def)
qed


subsection \<open>The split\<close>

lemma slice_rows_take:
  "0 \<le> s \<Longrightarrow> s \<le> int (length t) \<Longrightarrow> slice_rows t 0 s = Inr (take (nat s) t)"
  by (simp add: slice_rows_def)

lemma slice_rows_drop:
  "0 \<le> b \<Longrightarrow> 0 \<le> s \<Longrightarrow> b + s = int (length t) \<Longrightarrow> slice_rows t b s = Inr (drop (nat b) t)"
  by (simp add: slice_rows_def)

lemma prepareTrainingData_split:
  assumes ex: "extractExamples (createListeningSessions csvLoader
                 (getTracks csvLoader (sampleSize config)) 10) = (ins, labs)"
    and ne: "ins \<noteq> []"
    and f0: "0 \<le> validationSplit config" and f1: "validationSplit config \<le> 1"
  shows "prepareTrainingData config csvLoader =
     Inr \<lparr> train_inputs =
             take (length ins - validationCount (length ins) (validationSplit config)) ins,
           train_labels =
             take (length ins - validationCount (length ins) (validationSplit config)) labs,
           validation_inputs =
             drop (length ins - validationCount (length ins) (validationSplit config)) ins,
           validation_labels =
             drop (length ins - validationCount (length ins) (validationSplit config)) labs \<rparr>"
proof -
  define nv where "nv = \<lfloor>number_times (real (length ins)) (validationSplit config)\<rfloor>"
  have len: "length labs = length ins" using ex by (rule length_extract)
  have nv0: "0 \<le> nv" and nvN: "nv \<le> int (length ins)"
    unfolding nv_def using number_times_floor_bounds[OF f0 f1] by auto
  have nt: "nat (int (length ins) - nv) = length ins - nat nv"
    using nv0 nvN by linarith
  from ne len have lne: "labs \<noteq> []" by auto
  have t1: "tensor2d ins = Inr ins" using ne by (simp add: tensor2d_def)
  have t2: "tensor2d labs = Inr labs" using lne by (simp add: tensor2d_def)
  have s1: "slice_rows ins 0 (int (length ins) - nv) = Inr (take (length ins - nat nv) ins)"
    using slice_rows_take[of "int (length ins) - nv" ins] nv0 nvN nt by simp
  have s2: "slice_rows labs 0 (int (length ins) - nv) = Inr (take (length ins - nat nv) labs)"
    using slice_rows_take[of "int (length ins) - nv" labs] nv0 nvN nt len by simp
  have s3: "slice_rows ins (int (length ins) - nv) nv = Inr (drop (length ins - nat nv) ins)"
    using slice_rows_drop[of "int (length ins) - nv" nv ins] nv0 nvN nt by simp
  have s4: "slice_rows labs (int (length ins) - nv) nv = Inr (drop (length ins - nat nv) labs)"
    using slice_rows_drop[of "int (length ins) - nv" nv labs] nv0 nvN nt len by simp
  show ?thesis
    unfolding prepareTrainingData_def Let_def ex fst_conv snd_conv validationCount_def
    by (simp add: t1 t2 s1 s2 s3 s4 nv_def[symmetric])
qed

lemma prepareTrainingData_empty:
  assumes ex: "extractExamples (createListeningSessions csvLoader
                 (getTracks csvLoader (sampleSize config)) 10) = ([], labs)"
  shows "prepareTrainingData config csvLoader =
     Inl (TensorError ''tensor2d() requires shape to be provided when `values` are a flat/TypedArray'')"
  unfolding prepareTrainingData_def Let_def ex fst_conv snd_conv
  by (simp add: tensor2d_def)

lemma pairAt_example:
  "track_features (ts ! i) = Some exFeatures \<Longrightarrow> track_features (ts ! (i + 1)) = Some exFeatures
   \<Longrightarrow> pairAt ts i = [(exVector, exLabel)]"
  by (simp add: pairAt_def exVector_def exLabel_def trackFeaturesToVector_def or_zero_def
      div_or_zero_def exFeatures_def)

lemma adjacentPairs_two: "adjacentPairs exTwoTracks = [(exVector, exLabel)]"
proof -
  have "[0..<length exTwoTracks - 1] = [0]"
    by (simp add: exTwoTracks_def)
  moreover have "pairAt exTwoTracks 0 = [(exVector, exLabel)]"
    by (rule pairAt_example) (simp_all add: exTwoTracks_def mkTrack_def)
  ultimately show ?thesis
    by (simp add: adjacentPairs_def)
qed

lemma extract_one:
  "extractExamples (createListeningSessions (exLoader exTwoTracks)
       (getTracks (exLoader exTwoTracks) (sampleSize exConfig)) 10) = ([exVector], [exLabel])"
proof -
  have "take 5000 exTwoTracks = exTwoTracks"
    by (simp add: exTwoTracks_def)
  then show ?thesis
    by (simp add: extractExamples_eq exLoader_def exConfig_def adjacentPairs_two)
qed












text \<open>
  C2, as stated, fails: a corpus of two tracks gives one training example, and the
  data preparation returns one training row and an empty validation set instead of
  an error.
\<close>

theorem prepareTrainingData_one_example_counterexample:
  "length (fst (extractExamples (createListeningSessions (exLoader exTwoTracks)
       (getTracks (exLoader exTwoTracks) (sampleSize exConfig)) 10))) = 1
   \<and> prepareTrainingData exConfig (exLoader exTwoTracks) =
       Inr \<lparr> train_inputs = [exVector], train_labels = [exLabel],
             validation_inputs = [], validation_labels = [] \<rparr>"
proof -
  have f0: "0 \<le> validationSplit exConfig" and f1: "validationSplit exConfig \<le> 1"
    and lt: "validationSplit exConfig < 1"
    by (simp_all add: exConfig_def)
  have nv: "validationCount (Suc 0) (validationSplit exConfig) = 0"
    using validationCount_one[OF f0 lt] by simp
  from prepareTrainingData_split [OF extract_one _ f0 f1]
  have "prepareTrainingData exConfig (exLoader exTwoTracks) =
       Inr \<lparr> train_inputs = [exVector], train_labels = [exLabel],
             validation_inputs = [], validation_labels = [] \<rparr>"
    by (simp add: nv)
  then show ?thesis
    by (simp add: extract_one)
qed

text \<open>
  C2, amended. The data preparation has no minimum-example check. With a validation
  fraction in \<open>[0, 1]\<close>: when no example is extracted it stops with the error of the
  tensor construction on an empty array; when at least one example is extracted it
  returns the split, whose two parts together hold all examples; and with exactly
  one example and a fraction below 1 the training set is that example and the
  validation set is empty.
\<close>

theorem prepareTrainingData_no_minimum_check:
  assumes ex: "extractExamples (createListeningSessions csvLoader
                 (getTracks csvLoader (sampleSize config)) 10) = (ins, labs)"
    and f0: "0 \<le> validationSplit config" and f1: "validationSplit config \<le> 1"
  shows "(ins = [] \<longrightarrow> prepareTrainingData config csvLoader =
            Inl (TensorError
              ''tensor2d() requires shape to be provided when `values` are a flat/TypedArray''))
       \<and> (ins \<noteq> [] \<longrightarrow>
            (\<exists>d. prepareTrainingData config csvLoader = Inr d
                 \<and> train_inputs d @ validation_inputs d = ins
                 \<and> train_labels d @ validation_labels d = labs))
       \<and> (length ins = 1 \<and> validationSplit config < 1 \<longrightarrow>
            prepareTrainingData config csvLoader =
              Inr \<lparr> train_inputs = ins, train_labels = labs,
                    validation_inputs = [], validation_labels = [] \<rparr>)"
proof -
  have empty: "prepareTrainingData config csvLoader =
      Inl (TensorError
        ''tensor2d() requires shape to be provided when `values` are a flat/TypedArray'')"
    if "ins = []"
    using prepareTrainingData_empty[of csvLoader config labs] ex that by simp
  have some: "\<exists>d. prepareTrainingData config csvLoader = Inr d
                 \<and> train_inputs d @ validation_inputs d = ins
                 \<and> train_labels d @ validation_labels d = labs"
    if "ins \<noteq> []"
    using prepareTrainingData_split[OF ex that f0 f1] by simp
  have one: "prepareTrainingData config csvLoader =
      Inr \<lparr> train_inputs = ins, train_labels = labs,
            validation_inputs = [], validation_labels = [] \<rparr>"
    if len: "length ins = 1" and lt: "validationSplit config < 1"
  proof -
    from len have ne: "ins \<noteq> []" by auto
    from ex len have llen: "length labs = 1" by (simp add: length_extract)
    have "validationCount (length ins) (validationSplit config) = 0"
      using validationCount_one[OF f0 lt] by (simp add: len)
    then show ?thesis
      using prepareTrainingData_split[OF ex ne f0 f1] len llen by simp
  qed
  from empty some one show ?thesis by blast
qed

theorem prepareTrainingData_no_minimum_check_witness:
  "extractExamples (createListeningSessions (exLoader exTwoTracks)
       (getTracks (exLoader exTwoTracks) (sampleSize exConfig)) 10) = ([exVector], [exLabel])
   \<and> 0 \<le> validationSplit exConfig \<and> validationSplit exConfig \<le> 1
   \<and> [exVector] \<noteq> [] \<and> length [exVector] = 1 \<and> validationSplit exConfig < 1
   \<and> prepareTrainingData exConfig (exLoader exTwoTracks) =
       Inr \<lparr> train_inputs = [exVector], train_labels = [exLabel],
             validation_inputs = [], validation_labels = [] \<rparr>"
proof -
  have f0: "0 \<le> validationSplit exConfig" and f1: "validationSplit exConfig \<le> 1"
    and lt: "validationSplit exConfig < 1"
    by (simp_all add: exConfig_def)
  from prepareTrainingData_no_minimum_check [OF extract_one f0 f1] lt
  have "prepareTrainingData exConfig (exLoader exTwoTracks) =
       Inr \<lparr> train_inputs = [exVector], train_labels = [exLabel],
             validation_inputs = [], validation_labels = [] \<rparr>"
    by simp
  with extract_one f0 f1 lt show ?thesis by simp
qed

section \<open>Properties of the insight engine\<close>

lemma mean_mset: "mset xs = mset ys \<Longrightarrow> mean xs = mean ys"
proof -
  assume eq: "mset xs = mset ys"
  have "sum_list xs = sum_mset (mset xs)" "sum_list ys = sum_mset (mset ys)"
    by (simp_all add: sum_mset_sum_list)
  moreover have "length xs = length ys" using eq by (rule mset_eq_length)
  ultimately show ?thesis using eq by (simp add: mean_def)
qed

lemma standardDeviation_mset:
  assumes "mset xs = mset ys"
  shows "standardDeviation xs = standardDeviation ys"
proof -
  have m: "mean xs = mean ys" using assms by (rule mean_mset)
  have "mset (map (\<lambda>v. (v - mean xs)\<^sup>2) xs) = mset (map (\<lambda>v. (v - mean ys)\<^sup>2) ys)"
    using assms m by (metis mset_map)
  then have "mean (map (\<lambda>v. (v - mean xs)\<^sup>2) xs) = mean (map (\<lambda>v. (v - mean ys)\<^sup>2) ys)"
    by (rule mean_mset)
  then show ?thesis by (simp add: standardDeviation_def)
qed

lemma standardDeviation_feature_mset:
  "mset ts = mset ts' \<Longrightarrow> standardDeviation (map f ts) = standardDeviation (map f ts')"
  by (rule standardDeviation_mset) (metis mset_map)

lemma sum_list_gt:
  fixes c :: real
  shows "xs \<noteq> [] \<Longrightarrow> \<forall>x\<in>set xs. c < x \<Longrightarrow> c * real (length xs) < sum_list xs"
proof (induction xs)
  case Nil
  then show ?case by simp
next
  case (Cons a xs)
  show ?case
  proof (cases "xs = []")
    case True
    with Cons.prems show ?thesis by simp
  next
    case False
    with Cons have "c * real (length xs) < sum_list xs" by simp
    moreover from Cons.prems have "c < a" by simp
    ultimately show ?thesis by (simp add: algebra_simps)
  qed
qed

lemma mean_gt:
  fixes c :: real
  assumes "xs \<noteq> []" "\<forall>x\<in>set xs. c < x"
  shows "c < mean xs"
proof -
  from assms(1) have pos: "0 < real (length xs)" by simp
  from sum_list_gt[OF assms] have "c * real (length xs) < sum_list xs" .
  with pos show ?thesis by (simp add: mean_def pos_less_divide_eq)
qed

lemma mood_strings:
  "str_includes msgMoodPositive ''uplifting''"
  "str_includes msgMoodPositive ''positive''"
  "\<not> str_includes msgMoodPositive ''melancholic''"
  "str_includes msgMoodUpliftingShift ''uplifting''"
  "\<not> str_includes msgMoodUpliftingShift ''melancholic''"
  "str_includes msgMoodMelancholic ''melancholic''"
  "\<not> str_includes msgMoodMelancholic ''uplifting''"
  "\<not> str_includes msgMoodContemplativeShift ''melancholic''"
  "\<not> str_includes msgMoodContemplativeShift ''uplifting''"
  "str_includes msgMoodBalanced ''balanced''"
  "\<not> str_includes msgMoodBalanced ''uplifting''"
  "\<not> str_includes msgMoodBalanced ''positive''"
  "\<not> str_includes msgMoodBalanced ''melancholic''"
  by (simp_all add: msgMoodPositive_def msgMoodUpliftingShift_def msgMoodMelancholic_def
      msgMoodContemplativeShift_def msgMoodBalanced_def)

lemma mood_distinct:
  "msgMoodPositive \<noteq> msgMoodUpliftingShift"
  "msgMoodMelancholic \<noteq> msgMoodContemplativeShift"
  by (simp_all add: msgMoodPositive_def msgMoodUpliftingShift_def msgMoodMelancholic_def
      msgMoodContemplativeShift_def)

text \<open>
  C6, as stated, fails: the outer branch is taken on the predicted valence alone,
  so a batch of 20 tracks with valence 0.9 and energy 0.85 whose predicted valence
  is 0.5 gets the balanced insight, without the positive or uplifting wording.
\<close>

theorem generateMoodInsight_scenario_counterexample:
  "length exBatch = 20
   \<and> generateMoodInsight exBatch (exPredictions 0.5) = msgMoodBalanced
   \<and> \<not> str_includes (generateMoodInsight exBatch (exPredictions 0.5)) ''uplifting''
   \<and> \<not> str_includes (generateMoodInsight exBatch (exPredictions 0.5)) ''positive''"
proof -
  have "generateMoodInsight exBatch (exPredictions 0.5) = msgMoodBalanced"
    by (simp add: generateMoodInsight_def exPredictions_def js_gt_def js_lt_def Let_def)
  then show ?thesis by (simp add: mood_strings exBatch_def)
qed

text \<open>
  C6, amended. The mood insight compares the predicted valence with two thresholds:
  above 0.7 it is one of the two uplifting strings, below 0.3 one of the two
  low-valence strings, otherwise the balanced string. Within the first two branches
  the consistent-versus-shifting choice tests the batch mean valence against the same
  threshold (mean above 0.7, mean below 0.3). For a non-empty batch whose tracks all
  have valence above 0.7 the insight never has the melancholic wording, and it has the
  positive and uplifting wording when the predicted valence is above 0.7.
\<close>

theorem generateMoodInsight_thresholds:
  fixes tracks predictions
  defines "pv \<equiv> mood_valence (mood_prediction predictions)"
    and "avg \<equiv> mean (map valence tracks)"
    and "r \<equiv> generateMoodInsight tracks predictions"
  shows "(js_gt pv 0.7 \<longrightarrow>
            str_includes r ''uplifting'' \<and> \<not> str_includes r ''melancholic''
            \<and> (r = msgMoodPositive \<longleftrightarrow> avg > 0.7)
            \<and> (r = msgMoodUpliftingShift \<longleftrightarrow> \<not> avg > 0.7))
       \<and> (\<not> js_gt pv 0.7 \<and> js_lt pv 0.3 \<longrightarrow>
            \<not> str_includes r ''uplifting''
            \<and> (r = msgMoodMelancholic \<longleftrightarrow> avg < 0.3)
            \<and> (r = msgMoodContemplativeShift \<longleftrightarrow> \<not> avg < 0.3))
       \<and> (\<not> js_gt pv 0.7 \<and> \<not> js_lt pv 0.3 \<longrightarrow> r = msgMoodBalanced)
       \<and> (tracks \<noteq> [] \<and> (\<forall>t\<in>set tracks. valence t > 0.7) \<longrightarrow>
            \<not> str_includes r ''melancholic''
            \<and> (js_gt pv 0.7 \<longrightarrow>
                 r = msgMoodPositive \<and> str_includes r ''positive''
                 \<and> str_includes r ''uplifting''))"
proof -
  have avg_hi: "avg > 0.7" if "tracks \<noteq> []" "\<forall>t\<in>set tracks. valence t > 0.7"
    unfolding avg_def using that by (intro mean_gt) auto
  have r: "r = (if js_gt pv 0.7 then (if avg > 0.7 then msgMoodPositive else msgMoodUpliftingShift)
               else if js_lt pv 0.3 then
                 (if avg < 0.3 then msgMoodMelancholic else msgMoodContemplativeShift)
               else msgMoodBalanced)"
    by (simp add: r_def generateMoodInsight_def pv_def avg_def Let_def)
  have hi: "str_includes r ''uplifting'' \<and> \<not> str_includes r ''melancholic''
            \<and> (r = msgMoodPositive \<longleftrightarrow> avg > 0.7)
            \<and> (r = msgMoodUpliftingShift \<longleftrightarrow> \<not> avg > 0.7)" if "js_gt pv 0.7"
    using that by (simp add: r mood_strings mood_distinct mood_distinct[symmetric])
  have lo: "\<not> str_includes r ''uplifting''
            \<and> (r = msgMoodMelancholic \<longleftrightarrow> avg < 0.3)
            \<and> (r = msgMoodContemplativeShift \<longleftrightarrow> \<not> avg < 0.3)"
    if "\<not> js_gt pv 0.7 \<and> js_lt pv 0.3"
    using that by (simp add: r mood_strings mood_distinct mood_distinct[symmetric])
  have mid: "r = msgMoodBalanced" if "\<not> js_gt pv 0.7 \<and> \<not> js_lt pv 0.3"
    using that by (simp add: r)
  have scen: "\<not> str_includes r ''melancholic''
            \<and> (js_gt pv 0.7 \<longrightarrow>
                 r = msgMoodPositive \<and> str_includes r ''positive''
                 \<and> str_includes r ''uplifting'')"
    if "tracks \<noteq> [] \<and> (\<forall>t\<in>set tracks. valence t > 0.7)"
  proof -
    from that have "avg > 0.7" using avg_hi by blast
    then show ?thesis by (simp add: r mood_strings)
  qed
  from hi lo mid scen show ?thesis by blast
qed

theorem generateMoodInsight_thresholds_witness:
  "exBatch \<noteq> [] \<and> set exBatch = {exTrack 0.9 0.85 0.05}
   \<and> valence (exTrack 0.9 0.85 0.05) > 0.7
   \<and> js_gt (mood_valence (mood_prediction (exPredictions 0.8))) 0.7
   \<and> generateMoodInsight exBatch (exPredictions 0.8) = msgMoodPositive
   \<and> str_includes (generateMoodInsight exBatch (exPredictions 0.8)) ''uplifting''
   \<and> \<not> str_includes (generateMoodInsight exBatch (exPredictions 0.8)) ''melancholic''"
proof -
  have ne: "exBatch \<noteq> []"
    by (simp add: exBatch_def)
  have all: "\<forall>t\<in>set exBatch. valence t > 0.7"
    by (simp add: exBatch_def exTrack_def)
  have gt: "js_gt (mood_valence (mood_prediction (exPredictions 0.8))) 0.7"
    by (simp add: exPredictions_def js_gt_def)
  note c = generateMoodInsight_thresholds [where tracks = exBatch and predictions = "exPredictions 0.8"]
  from c ne all gt have "generateMoodInsight exBatch (exPredictions 0.8) = msgMoodPositive
      \<and> str_includes (generateMoodInsight exBatch (exPredictions 0.8)) ''uplifting''
      \<and> \<not> str_includes (generateMoodInsight exBatch (exPredictions 0.8)) ''melancholic''"
    by blast
  moreover have "set exBatch = {exTrack 0.9 0.85 0.05}"
    by (simp add: exBatch_def)
  moreover have "valence (exTrack 0.9 0.85 0.05) > 0.7"
    by (simp add: exTrack_def)
  ultimately show ?thesis using ne gt by blast
qed

lemma skipFrequently_distinct:
  "msgSkipFrequently \<noteq> msgRarelySkip"
  "msgSkipFrequently \<noteq> msgReplay"
  "msgSkipFrequently \<noteq> msgKeyPreference k"
  "msgSkipFrequently \<noteq> msgTempoConsistent r"
  "msgSkipFrequently \<noteq> msgTempoVaried"
  "msgSkipFrequently \<noteq> msgAcoustic"
  "msgSkipFrequently \<noteq> msgElectronic"
  "msgSkipFrequently \<noteq> msgMoodPredictable"
  "msgSkipFrequently \<noteq> msgNextPredictable"
  by (simp_all add: msgSkipFrequently_def msgRarelySkip_def msgReplay_def msgTempoVaried_def
      msgAcoustic_def msgElectronic_def msgMoodPredictable_def msgNextPredictable_def
      msgKeyPreference_def msgTempoConsistent_def)

lemma skip_strings:
  "str_includes msgRarelySkip ''rarely skip''"
  "str_includes msgSkipFrequently ''skip tracks frequently''"
  by (simp_all add: msgRarelySkip_def msgSkipFrequently_def)

lemma generatePatternInsights_parts:
  "generatePatternInsights tracks predictions =
     (let ps =
        (if mean (map skip_rate tracks) > 0.3 then [msgSkipFrequently]
         else if mean (map skip_rate tracks) < 0.1 then [msgRarelySkip] else [])
        @ (if mean (map repeat_count tracks) > 0.2 then [msgReplay] else [])
        @ (case dominantKey (analyzeKeyDistribution tracks) of
             None \<Rightarrow> [] | Some k \<Rightarrow> [msgKeyPreference (keyNameAt k)])
        @ (if js_lt (variance (analyzeTempoPatterns tracks)) 0.1
           then [msgTempoConsistent (dominantRange (analyzeTempoPatterns tracks))]
           else [msgTempoVaried])
        @ (if analyzeAcousticPreference tracks > 0.7 then [msgAcoustic]
           else if analyzeAcousticPreference tracks < 0.3 then [msgElectronic] else [])
        @ (if conf_mood (confidence_scores predictions) > 0.8 then [msgMoodPredictable] else [])
        @ (if conf_next_track (confidence_scores predictions) > 0.8 then [msgNextPredictable] else [])
      in if length ps > 0 then ps else [msgFallback])"
  unfolding generatePatternInsights_def Let_def
  by (simp split: option.split)

text \<open>
  C7. For every non-empty batch whose mean skip rate is below 0.1, the patterns list
  holds the "You rarely skip tracks" string and does not hold the
  "You tend to skip tracks frequently" string.
\<close>

theorem generatePatternInsights_rarely_skip:
  assumes "tracks \<noteq> []" and "mean (map skip_rate tracks) < 0.1"
  shows "msgRarelySkip \<in> set (generatePatternInsights tracks predictions)
       \<and> msgSkipFrequently \<notin> set (generatePatternInsights tracks predictions)
       \<and> str_includes msgRarelySkip ''rarely skip''
       \<and> str_includes msgSkipFrequently ''skip tracks frequently''"
proof -
  from assms(2) have no: "\<not> mean (map skip_rate tracks) > 0.3" by simp
  have "msgRarelySkip \<in> set (generatePatternInsights tracks predictions)
      \<and> msgSkipFrequently \<notin> set (generatePatternInsights tracks predictions)"
    unfolding generatePatternInsights_parts Let_def
    using assms(2) no
    by (simp add: skipFrequently_distinct split: option.split)
  then show ?thesis by (simp add: skip_strings)
qed

theorem generatePatternInsights_rarely_skip_witness:
  "[exTrack 0.9 0.85 0.05] \<noteq> []
   \<and> mean (map skip_rate [exTrack 0.9 0.85 0.05]) < 0.1
   \<and> msgRarelySkip \<in> set (generatePatternInsights [exTrack 0.9 0.85 0.05] (exPredictions 0.8))
   \<and> msgSkipFrequently \<notin> set (generatePatternInsights [exTrack 0.9 0.85 0.05] (exPredictions 0.8))"
proof -
  have ne: "[exTrack 0.9 0.85 0.05] \<noteq> []" by simp
  have lt: "mean (map skip_rate [exTrack 0.9 0.85 0.05]) < 0.1"
    by (simp add: mean_def exTrack_def)
  from generatePatternInsights_rarely_skip [OF ne lt, of "exPredictions 0.8"] ne lt
  show ?thesis by blast
qed

text \<open>
  C8. The diversity insight does not depend on the order of the tracks: a batch and
  any permutation of it (the same tracks with the same multiplicities) get the same
  classification string.
\<close>

theorem generateDiversityInsight_order_invariant:
  assumes "mset tracks' = mset tracks"
  shows "generateDiversityInsight tracks' = generateDiversityInsight tracks"
  unfolding generateDiversityInsight_def Let_def
  by (simp add: standardDeviation_feature_mset[OF assms])

theorem generateDiversityInsight_order_invariant_witness:
  "mset [exTrack 0.9 0.85 0.05, exTrack 0.1 0.2 0.5] =
     mset [exTrack 0.1 0.2 0.5, exTrack 0.9 0.85 0.05]
   \<and> generateDiversityInsight [exTrack 0.9 0.85 0.05, exTrack 0.1 0.2 0.5] =
       generateDiversityInsight [exTrack 0.1 0.2 0.5, exTrack 0.9 0.85 0.05]"
proof -
  have perm: "mset [exTrack 0.9 0.85 0.05, exTrack 0.1 0.2 0.5] =
      mset [exTrack 0.1 0.2 0.5, exTrack 0.9 0.85 0.05]"
    by (simp add: add.commute)
  from generateDiversityInsight_order_invariant [OF perm] perm show ?thesis by blast
qed

end
